theory Spec2Isabelle
  imports Main "HOL-Library.AList"
begin

section \<open>The HLS transcoding session manager (backend/src/hls-transcoder.ts)\<close>

text \<open>
  The development embeds the closure returned by \<^verbatim>\<open>createHLSTranscoder\<close>: its state
  (\<^verbatim>\<open>config\<close>, \<^verbatim>\<open>sessions\<close>, \<^verbatim>\<open>usedPorts\<close>) is a record that every operation
  takes and returns. The conventions of the embedding:

  \<^item> Each exported operation and each event callback runs as one atomic step, from its
    call to the settling of its promise.
  \<^item> What the collaborators decide (whether a directory can be created, whether the
    subprocess spawns, which datagrams arrive, whether the subprocess exits in time,
    whether a socket binds) is an explicit argument of the step, the record \<open>Env\<close>.
  \<^item> The \<^verbatim>\<open>close\<close>, \<^verbatim>\<open>end\<close> and \<^verbatim>\<open>kill\<close> calls on sockets, transports, consumers and
    the subprocess do not throw.
  \<^item> A timer fires exactly after its delay.
  \<^item> Ports, counters and millisecond timestamps are natural numbers; a datagram is the
    list of its bytes.
\<close>

subsection \<open>Data model\<close>

datatype media_kind = Video | Audio

datatype signal = SIGTERM | SIGKILL | SIGSEGV

datatype error =
    SessionExists string
  | NoValidProducers
  | DirectoryError
  | SpawnError
  | RouterError
  | TransportError
  | SocketNotRunning
  | WriteError

record HLSConfig =
  outputDir :: string
  segmentDuration :: nat
  playlistLength :: nat
  resolution :: string
  videoBitrate :: string
  audioBitrate :: string
  baseRtpPort :: nat

record Producer =
  producerId :: string
  kind :: media_kind
  router :: bool

text \<open>The objects with one slot per media kind (\<^verbatim>\<open>{ video, audio }\<close>).\<close>

record 'a PerKind =
  video :: 'a
  audio :: 'a

record Stats =
  packetsReceived :: nat
  bytesReceived :: nat
  lastPacketTime :: nat

text \<open>
  A child process handle: \<open>pid\<close> tells one handle from another, \<open>args\<close> is the command
  line, \<open>stdinData\<close> the chunks written to its standard input in call order, \<open>killed\<close>
  the flag Node sets once \<^verbatim>\<open>kill()\<close> has delivered a signal, \<open>signals\<close> the signals
  delivered, \<open>exited\<close> whether the exit event has fired.
\<close>

record ChildProcess =
  pid :: nat
  args :: "string list"
  stdinData :: "nat list list"
  stdinDestroyed :: bool
  stdinEnded :: bool
  killed :: bool
  signals :: "signal list"
  exited :: bool

text \<open>
  A bound UDP socket carries one of two message listeners: the one installed by
  \<^verbatim>\<open>setupRtpReceiversWithForwarding\<close> and the one installed by
  \<^verbatim>\<open>attemptSocketRecovery\<close>.
\<close>

datatype message_handler = StatsAndForward | ForwardOnly

record Socket =
  boundPort :: nat
  onMessage :: message_handler
  socketClosed :: bool

record PlainTransport =
  remotePort :: nat
  transportClosed :: bool

record Consumer =
  consumedProducer :: string
  consumerClosed :: bool

record TranscodingSession =
  sessionId :: string
  process :: "ChildProcess option"
  isActive :: bool
  startTime :: nat
  outputPath :: string
  rtpPorts :: "nat PerKind"
  rtpSockets :: "Socket option PerKind"
  producers :: "Producer option PerKind"
  plainTransports :: "PlainTransport option PerKind"
  consumers :: "Consumer option PerKind"
  stats :: Stats

text \<open>
  \<^verbatim>\<open>sessions\<close> is a JavaScript \<^verbatim>\<open>Map\<close>: an association list in insertion order with
  \<^const>\<open>map_of\<close> for \<^verbatim>\<open>get\<close>/\<^verbatim>\<open>has\<close>, \<^const>\<open>AList.update\<close> for \<^verbatim>\<open>set\<close> and
  \<^const>\<open>AList.delete\<close> for \<^verbatim>\<open>delete\<close>. \<^verbatim>\<open>usedPorts\<close> is a \<^verbatim>\<open>Set\<close>: a list in
  insertion order.
\<close>

record HLSState =
  config :: HLSConfig
  sessions :: "(string \<times> TranscodingSession) list"
  usedPorts :: "nat list"

definition DEFAULT_HLS_CONFIG :: HLSConfig where
  "DEFAULT_HLS_CONFIG =
     \<lparr> outputDir = ''./hls-output'', segmentDuration = 4, playlistLength = 10,
       resolution = ''1280x720'', videoBitrate = ''2500k'', audioBitrate = ''128k'',
       baseRtpPort = 20000 \<rparr>"

text \<open>
  \<^verbatim>\<open>createHLSTranscoder\<close> takes the configuration that results from laying the caller's
  fields over the defaults.
\<close>

definition createHLSTranscoder :: "HLSConfig \<Rightarrow> HLSState" where
  "createHLSTranscoder customConfig = \<lparr> config = customConfig, sessions = [], usedPorts = [] \<rparr>"

text \<open>Reading and writing the slot of a kind.\<close>

definition sel :: "media_kind \<Rightarrow> 'a PerKind \<Rightarrow> 'a" where
  "sel k pk = (case k of Video \<Rightarrow> video pk | Audio \<Rightarrow> audio pk)"

definition upd :: "media_kind \<Rightarrow> 'a \<Rightarrow> 'a PerKind \<Rightarrow> 'a PerKind" where
  "upd k v pk = (case k of Video \<Rightarrow> pk\<lparr>video := v\<rparr> | Audio \<Rightarrow> pk\<lparr>audio := v\<rparr>)"

text \<open>\<^verbatim>\<open>Set.add\<close> and \<^verbatim>\<open>Set.delete\<close>.\<close>

definition set_add :: "nat \<Rightarrow> nat list \<Rightarrow> nat list" where
  "set_add p ps = (if p \<in> set ps then ps else ps @ [p])"

definition set_delete :: "nat \<Rightarrow> nat list \<Rightarrow> nat list" where
  "set_delete p ps = removeAll p ps"

subsection \<open>Strings, numbers and paths\<close>

text \<open>
  Decimal digits: \<open>digit_char\<close> is applied to numbers below 10 only, \<open>digit_val\<close> is
  \<open>None\<close> on a character that is no digit.
\<close>

fun position :: "'a \<Rightarrow> 'a list \<Rightarrow> nat option" where
  "position x [] = None"
| "position x (y # ys) = (if x = y then Some 0 else map_option Suc (position x ys))"

definition digit_char :: "nat \<Rightarrow> char" where
  "digit_char d = ''0123456789'' ! d"

fun toString :: "nat \<Rightarrow> string" where
  "toString n =
     (if n < 10 then [digit_char n] else toString (n div 10) @ [digit_char (n mod 10)])"

declare toString.simps [simp del]

definition digit_val :: "char \<Rightarrow> nat option" where
  "digit_val c = position c ''0123456789''"

definition digits_value :: "string \<Rightarrow> nat" where
  "digits_value s = foldl (\<lambda>acc c. 10 * acc + (case digit_val c of None \<Rightarrow> 0 | Some d \<Rightarrow> d)) 0 s"

text \<open>
  \<^verbatim>\<open>parseInt\<close> on a string that starts with its digits: the value of the longest prefix
  of digits, \<open>None\<close> (NaN) when there is none. \<^verbatim>\<open>Number\<close> on a string of digits: its
  value, 0 for the empty string, \<open>None\<close> (NaN) otherwise. Signs, blanks, fractions and
  other radixes are not modelled.
\<close>

definition parseInt :: "string \<Rightarrow> nat option" where
  "parseInt s =
     (let ds = takeWhile (\<lambda>c. digit_val c \<noteq> None) s
      in if ds = [] then None else Some (digits_value ds))"

definition Number :: "string \<Rightarrow> nat option" where
  "Number s = (if list_all (\<lambda>c. digit_val c \<noteq> None) s then Some (digits_value s) else None)"

definition showNumber :: "nat option \<Rightarrow> string" where
  "showNumber v = (case v of None \<Rightarrow> ''NaN'' | Some n \<Rightarrow> toString n)"

fun split_on :: "char \<Rightarrow> string \<Rightarrow> string list" where
  "split_on c [] = [[]]"
| "split_on c (x # xs) =
     (if x = c then [] # split_on c xs
      else (case split_on c xs of [] \<Rightarrow> [[x]] | w # ws \<Rightarrow> (x # w) # ws))"

fun join_with :: "string \<Rightarrow> string list \<Rightarrow> string" where
  "join_with sep [] = []"
| "join_with sep [s] = s"
| "join_with sep (s # t # ss) = s @ sep @ join_with sep (t # ss)"

text \<open>
  \<^verbatim>\<open>path.join\<close> and \<^verbatim>\<open>path.dirname\<close> (POSIX): the arguments are joined with a slash
  and normalised; empty and \<^verbatim>\<open>.\<close> segments go, \<^verbatim>\<open>..\<close> removes the segment before
  it. Paths that end in a slash are not modelled.
\<close>

fun normalize_segments :: "bool \<Rightarrow> string list \<Rightarrow> string list \<Rightarrow> string list" where
  "normalize_segments absolute acc [] = rev acc"
| "normalize_segments absolute acc (s # ss) =
     (if s = [] \<or> s = ''.'' then normalize_segments absolute acc ss
      else if s = ''..'' then
        (case acc of
           [] \<Rightarrow> normalize_segments absolute (if absolute then [] else [''..'']) ss
         | a # as \<Rightarrow>
             if a = ''..'' then normalize_segments absolute (''..'' # acc) ss
             else normalize_segments absolute as ss)
      else normalize_segments absolute (s # acc) ss)"

definition path_normalize :: "string \<Rightarrow> string" where
  "path_normalize p =
     (let absolute = (p \<noteq> [] \<and> hd p = CHR ''/'');
          body = join_with ''/'' (normalize_segments absolute [] (split_on CHR ''/'' p))
      in if absolute then CHR ''/'' # body else if body = [] then ''.'' else body)"

definition path_join :: "string list \<Rightarrow> string" where
  "path_join parts = path_normalize (join_with ''/'' (filter (\<lambda>s. s \<noteq> []) parts))"

definition path_dirname :: "string \<Rightarrow> string" where
  "path_dirname p =
     (let segs = split_on CHR ''/'' p
      in if length segs \<le> 1 then ''.''
         else (let d = join_with ''/'' (butlast segs) in if d = [] then ''/'' else d))"

subsection \<open>Port allocator\<close>

text \<open>
  A port is a JavaScript number, here a natural number. The two agree as long as no sum
  that the allocator forms exceeds \<^verbatim>\<open>Number.MAX_SAFE_INTEGER\<close>: above it \<^verbatim>\<open>port + 1\<close> and
  \<^verbatim>\<open>port += 2\<close> are rounded. The statements about reservations are made within that
  range.
\<close>

definition MAX_SAFE_INTEGER :: nat where
  "MAX_SAFE_INTEGER = 9007199254740991"

lemma filter_ge_shrinks:
  assumes "port \<in> set used"
  shows "length (filter (\<lambda>q. port + 2 \<le> q) used) < length (filter (\<lambda>q. (port::nat) \<le> q) used)"
proof -
  have nested: "filter (\<lambda>q. port + 2 \<le> q) used =
      filter (\<lambda>q. port + 2 \<le> q) (filter (\<lambda>q. port \<le> q) used)"
    by (auto intro: filter_cong)
  have "port \<in> set (filter (\<lambda>q. port \<le> q) used)"
    using assms by simp
  then have "length (filter (\<lambda>q. port + 2 \<le> q) (filter (\<lambda>q. port \<le> q) used))
      < length (filter (\<lambda>q. port \<le> q) used)"
    by (rule length_filter_less) simp
  then show ?thesis
    using nested by simp
qed

text \<open>
  The loop of \<^verbatim>\<open>getAvailablePort\<close>: \<^verbatim>\<open>while (state.usedPorts.has(port)) port += 2\<close>.
  It ends because every round passes one more member of the finite set.
\<close>

function getAvailablePort_loop :: "nat list \<Rightarrow> nat \<Rightarrow> nat" where
  "getAvailablePort_loop used port =
     (if port \<in> set used then getAvailablePort_loop used (port + 2) else port)"
  by pat_completeness auto

termination
  by (relation "measure (\<lambda>(used, port). length (filter (\<lambda>q. port \<le> q) used))")
     (use filter_ge_shrinks in auto)

declare getAvailablePort_loop.simps [simp del]

definition getAvailablePort :: "HLSState \<Rightarrow> nat \<times> HLSState" where
  "getAvailablePort st =
     (let port = getAvailablePort_loop (usedPorts st) (baseRtpPort (config st))
      in (port, st\<lparr>usedPorts := set_add (port + 1) (set_add port (usedPorts st))\<rparr>))"

subsection \<open>What the collaborators decide\<close>

text \<open>
  \<open>dateNow\<close> is \<^verbatim>\<open>Date.now()\<close> when the step starts; \<open>mkdirFails\<close> says that
  \<^verbatim>\<open>ensureDirectoryExists\<close> rejects; \<open>spawned\<close> is the pid of the subprocess on its
  spawn event, \<open>None\<close> on its error event; \<open>transportFails\<close> says that the router
  rejects the plain transport of a kind; \<open>arrivals k\<close> lists the datagrams (socket kind,
  bytes, arrival time) received before the \<open>k\<close>-th poll of the synchronizer;
  \<open>exitsInGrace\<close> says that the subprocess exits within 5 s of SIGTERM; \<open>bindOk\<close> says
  that a replacement socket of a kind binds; \<open>writeFails\<close> says that \<^verbatim>\<open>fs.writeFile\<close>
  rejects.
\<close>

record Env =
  dateNow :: nat
  mkdirFails :: bool
  spawned :: "nat option"
  transportFails :: "bool PerKind"
  arrivals :: "nat \<Rightarrow> (media_kind \<times> nat list \<times> nat) list"
  exitsInGrace :: bool
  bindOk :: "bool PerKind"
  writeFails :: bool

subsection \<open>RTP ingest\<close>

text \<open>
  The guarded write of both listeners:
  \<^verbatim>\<open>if (session.process && session.process.stdin && !session.process.stdin.destroyed)\<close>.
\<close>

definition forwardToStdin :: "nat list \<Rightarrow> TranscodingSession \<Rightarrow> TranscodingSession" where
  "forwardToStdin rtpPacket session =
     (case process session of
        None \<Rightarrow> session
      | Some p \<Rightarrow>
          if \<not> stdinDestroyed p
          then session\<lparr>process := Some (p\<lparr>stdinData := stdinData p @ [rtpPacket]\<rparr>)\<rparr>
          else session)"

text \<open>The message listener of \<^verbatim>\<open>setupRtpReceiversWithForwarding\<close> (both kinds alike).\<close>

definition onRtpMessage :: "nat list \<Rightarrow> nat \<Rightarrow> TranscodingSession \<Rightarrow> TranscodingSession" where
  "onRtpMessage rtpPacket now session =
     forwardToStdin rtpPacket
       (session\<lparr>stats :=
          \<lparr> packetsReceived = packetsReceived (stats session) + 1,
            bytesReceived = bytesReceived (stats session) + length rtpPacket,
            lastPacketTime = now \<rparr>\<rparr>)"

text \<open>The message listener that \<^verbatim>\<open>attemptSocketRecovery\<close> puts on the new socket.\<close>

definition onRecoveredMessage :: "nat list \<Rightarrow> TranscodingSession \<Rightarrow> TranscodingSession" where
  "onRecoveredMessage rtpPacket session = forwardToStdin rtpPacket session"

text \<open>A datagram arriving on the session's socket of kind \<open>k\<close> runs that socket's listener.\<close>

definition deliver ::
  "media_kind \<Rightarrow> nat list \<Rightarrow> nat \<Rightarrow> TranscodingSession \<Rightarrow> TranscodingSession" where
  "deliver k rtpPacket now session =
     (case sel k (rtpSockets session) of
        None \<Rightarrow> session
      | Some sock \<Rightarrow>
          (case onMessage sock of
             StatsAndForward \<Rightarrow> onRtpMessage rtpPacket now session
           | ForwardOnly \<Rightarrow> onRecoveredMessage rtpPacket session))"

definition deliverAll ::
  "(media_kind \<times> nat list \<times> nat) list \<Rightarrow> TranscodingSession \<Rightarrow> TranscodingSession" where
  "deliverAll ds session = fold (\<lambda>(k, rtpPacket, now). deliver k rtpPacket now) ds session"

text \<open>
  One of the two blocks of \<^verbatim>\<open>setupRtpReceiversWithForwarding\<close>: the socket is created
  and bound only if the kind has a producer, its port is not 0 and the process is there.
\<close>

definition setupKind :: "media_kind \<Rightarrow> TranscodingSession \<Rightarrow> TranscodingSession" where
  "setupKind k session =
     (if sel k (producers session) \<noteq> None \<and> sel k (rtpPorts session) \<noteq> 0
         \<and> process session \<noteq> None
      then session\<lparr>rtpSockets :=
             upd k (Some \<lparr> boundPort = sel k (rtpPorts session), onMessage = StatsAndForward,
                           socketClosed = False \<rparr>) (rtpSockets session)\<rparr>
      else session)"

definition setupRtpReceiversWithForwarding :: "TranscodingSession \<Rightarrow> TranscodingSession" where
  "setupRtpReceiversWithForwarding session = setupKind Audio (setupKind Video session)"

text \<open>
  \<^verbatim>\<open>attemptSocketRecovery\<close> with the callback of its \<^verbatim>\<open>bind\<close>: nothing happens on an
  inactive session or when the new socket does not bind; otherwise the old socket is
  closed and replaced.
\<close>

definition attemptSocketRecovery ::
  "Env \<Rightarrow> media_kind \<Rightarrow> TranscodingSession \<Rightarrow> TranscodingSession" where
  "attemptSocketRecovery env type session =
     (if \<not> isActive session then session
      else if \<not> sel type (bindOk env) then session
      else session\<lparr>rtpSockets :=
             upd type (Some \<lparr> boundPort = sel type (rtpPorts session), onMessage = ForwardOnly,
                              socketClosed = False \<rparr>) (rtpSockets session)\<rparr>)"

subsection \<open>Stream synchronizer\<close>

datatype flow_result = FlowDetected int nat | FlowTimeout int nat

text \<open>
  The interval callback of \<^verbatim>\<open>waitForRtpFlow\<close>, fired for the \<open>k\<close>-th time 100 k ms
  after the call. The promise is resolved (\<open>Inr\<close>) on both exits; the executor never
  calls \<^verbatim>\<open>reject\<close>.
\<close>

function waitForRtpFlow_poll ::
  "(nat \<Rightarrow> (media_kind \<times> nat list \<times> nat) list) \<Rightarrow> nat \<Rightarrow> nat \<Rightarrow> nat \<Rightarrow> TranscodingSession
     \<Rightarrow> (error + flow_result) \<times> TranscodingSession" where
  "waitForRtpFlow_poll arr timeoutMs initialPacketCount k session =
     (if int (packetsReceived (stats (deliverAll (arr k) session))) - int initialPacketCount > 10
      then (Inr (FlowDetected
                  (int (packetsReceived (stats (deliverAll (arr k) session)))
                     - int initialPacketCount) (100 * k)),
            deliverAll (arr k) session)
      else if 100 * k > timeoutMs
      then (Inr (FlowTimeout
                  (int (packetsReceived (stats (deliverAll (arr k) session)))
                     - int initialPacketCount) (100 * k)),
            deliverAll (arr k) session)
      else waitForRtpFlow_poll arr timeoutMs initialPacketCount (k + 1)
             (deliverAll (arr k) session))"
  by pat_completeness auto

termination
  by (relation "measure (\<lambda>(arr, timeoutMs, initialPacketCount, k, session).
        timeoutMs + 100 - 100 * k)") auto

declare waitForRtpFlow_poll.simps [simp del]

definition waitForRtpFlow ::
  "Env \<Rightarrow> TranscodingSession \<Rightarrow> nat \<Rightarrow> (error + flow_result) \<times> TranscodingSession" where
  "waitForRtpFlow env session timeoutMs =
     waitForRtpFlow_poll (arrivals env) timeoutMs (packetsReceived (stats session)) 1 session"

definition thrown :: "(error + 'a) \<times> TranscodingSession \<Rightarrow> error option \<times> TranscodingSession" where
  "thrown r = (case r of (Inl e, session) \<Rightarrow> (Some e, session) | (Inr v, session) \<Rightarrow> (None, session))"

definition synchronizeStreams :: "Env \<Rightarrow> TranscodingSession \<Rightarrow> error option \<times> TranscodingSession" where
  "synchronizeStreams env session =
     (if audio (producers session) \<noteq> None \<and> video (producers session) \<noteq> None
      then thrown (waitForRtpFlow env session 3000)
      else if video (producers session) \<noteq> None then thrown (waitForRtpFlow env session 2000)
      else if audio (producers session) \<noteq> None then thrown (waitForRtpFlow env session 2000)
      else (None, session))"

subsection \<open>Connecting the producers\<close>

text \<open>
  \<^verbatim>\<open>createPlainTransportForProducer\<close> throws when the producer gives no router and when
  the router rejects one of the three requests.
\<close>

definition createPlainTransportForProducer ::
  "bool \<Rightarrow> Producer \<Rightarrow> nat \<Rightarrow> error + PlainTransport \<times> Consumer" where
  "createPlainTransportForProducer fails producer port =
     (if \<not> router producer then Inl RouterError
      else if fails then Inl TransportError
      else Inr (\<lparr> remotePort = port, transportClosed = False \<rparr>,
                \<lparr> consumedProducer = producerId producer, consumerClosed = False \<rparr>))"

text \<open>One of the two blocks of \<^verbatim>\<open>connectProducersToRtp\<close>.\<close>

definition connectKind ::
  "Env \<Rightarrow> media_kind \<Rightarrow> TranscodingSession \<Rightarrow> error option \<times> TranscodingSession" where
  "connectKind env k session =
     (case sel k (producers session) of
        None \<Rightarrow> (None, session)
      | Some producer \<Rightarrow>
          if sel k (rtpPorts session) = 0 then (None, session)
          else (case createPlainTransportForProducer (sel k (transportFails env)) producer
                       (sel k (rtpPorts session)) of
                  Inl e \<Rightarrow> (Some e, session)
                | Inr (transport, consumer) \<Rightarrow>
                    (None, session\<lparr>plainTransports := upd k (Some transport) (plainTransports session),
                                   consumers := upd k (Some consumer) (consumers session)\<rparr>)))"

definition connectProducersToRtp :: "Env \<Rightarrow> TranscodingSession \<Rightarrow> error option \<times> TranscodingSession" where
  "connectProducersToRtp env session =
     (case connectKind env Video session of
        (Some e, s1) \<Rightarrow> (Some e, s1)
      | (None, s1) \<Rightarrow>
          (case connectKind env Audio s1 of
             (Some e, s2) \<Rightarrow> (Some e, s2)
           | (None, s2) \<Rightarrow> synchronizeStreams env s2))"

subsection \<open>Process supervisor\<close>

definition ffmpegArgs :: "HLSConfig \<Rightarrow> Producer option PerKind \<Rightarrow> string \<Rightarrow> string list" where
  "ffmpegArgs cfg prods playlistPath =
     [''-protocol_whitelist'', ''pipe,udp,rtp,file'', ''-thread_queue_size'', ''1024'',
      ''-analyzeduration'', ''1000000'', ''-probesize'', ''1000000'']
     @ (if video prods \<noteq> None \<and> audio prods \<noteq> None then [''-f'', ''rtp'', ''-i'', ''pipe:0'']
        else if video prods \<noteq> None then [''-f'', ''rtp'', ''-i'', ''pipe:0'']
        else if audio prods \<noteq> None then [''-f'', ''rtp'', ''-i'', ''pipe:0'']
        else [])
     @ (if video prods \<noteq> None
        then [''-c:v'', ''libx264'', ''-preset'', ''veryfast'', ''-tune'', ''zerolatency'',
              ''-profile:v'', ''baseline'', ''-level'', ''3.1'', ''-s'', resolution cfg,
              ''-b:v'', videoBitrate cfg, ''-maxrate'', videoBitrate cfg, ''-bufsize'', ''4M'',
              ''-r'', ''30'', ''-g'', ''60'', ''-keyint_min'', ''60'', ''-sc_threshold'', ''0'',
              ''-x264opts'', ''keyint=60:min-keyint=60:no-scenecut:rc-lookahead=30'']
        else [])
     @ (if audio prods \<noteq> None
        then [''-c:a'', ''aac'', ''-b:a'', audioBitrate cfg, ''-ar'', ''48000'', ''-ac'', ''2'',
              ''-profile:a'', ''aac_low'']
        else [])
     @ [''-f'', ''hls'', ''-hls_time'', toString (segmentDuration cfg),
        ''-hls_list_size'', toString (playlistLength cfg),
        ''-hls_flags'',
        ''delete_segments+append_list+round_durations+split_by_time+independent_segments'',
        ''-hls_segment_filename'', path_join [path_dirname playlistPath, ''segment_%03d.ts''],
        ''-hls_segment_type'', ''mpegts'', ''-hls_start_number_source'', ''datetime'',
        ''-start_number'', ''0'', ''-hls_allow_cache'', ''0'']
     @ [playlistPath]"

text \<open>
  \<^verbatim>\<open>startFFmpegProcess\<close> resolves with the new handle on the spawn event and rejects on
  the error event. The exit listener it registers is \<open>onExit\<close> below.
\<close>

definition startFFmpegProcess ::
  "HLSConfig \<Rightarrow> Env \<Rightarrow> TranscodingSession \<Rightarrow> string \<Rightarrow> error + ChildProcess" where
  "startFFmpegProcess cfg env session playlistPath =
     (case spawned env of
        None \<Rightarrow> Inl SpawnError
      | Some n \<Rightarrow>
          Inr \<lparr> pid = n, args = ffmpegArgs cfg (producers session) playlistPath, stdinData = [],
                stdinDestroyed = False, stdinEnded = False, killed = False, signals = [],
                exited = False \<rparr>)"

text \<open>
  The exit listener: the session after it, and the delay of the restart timer when one
  is set. \<open>code\<close> and \<open>sig\<close> are the arguments of the exit event (\<open>None\<close> is null).
\<close>

definition onExit ::
  "int option \<Rightarrow> signal option \<Rightarrow> TranscodingSession \<Rightarrow> TranscodingSession \<times> nat option" where
  "onExit code sig session =
     (let session1 = session\<lparr>isActive := False\<rparr>
      in if code \<noteq> Some 0 \<and> sig \<noteq> Some SIGTERM \<and> sig \<noteq> Some SIGKILL \<and> isActive session1
         then (session1, Some 5000)
         else (session1, None))"

text \<open>The callback of the restart timer.\<close>

definition restartCallback ::
  "HLSConfig \<Rightarrow> Env \<Rightarrow> string \<Rightarrow> TranscodingSession \<Rightarrow> TranscodingSession" where
  "restartCallback cfg env playlistPath session =
     (case startFFmpegProcess cfg env session playlistPath of
        Inl e \<Rightarrow> session
      | Inr newProcess \<Rightarrow>
          setupRtpReceiversWithForwarding (session\<lparr>process := Some newProcess, isActive := True\<rparr>))"

text \<open>
  The subprocess of a session exits: its handle is marked, its standard input is gone,
  the exit listener runs, and the restart timer, if set, fires.
\<close>

definition processExit ::
  "HLSConfig \<Rightarrow> Env \<Rightarrow> int option \<Rightarrow> signal option \<Rightarrow> TranscodingSession \<Rightarrow> TranscodingSession" where
  "processExit cfg env code sig session =
     (case onExit code sig
             (session\<lparr>process :=
                map_option (\<lambda>p. p\<lparr>exited := True, stdinDestroyed := True\<rparr>) (process session)\<rparr>) of
        (session1, None) \<Rightarrow> session1
      | (session1, Some delay) \<Rightarrow>
          restartCallback cfg env (path_join [outputPath session1, ''playlist.m3u8'']) session1)"

text \<open>
  The stderr listener on a progress line (one containing \<^verbatim>\<open>frame=\<close>).
\<close>

definition onStderrProgress :: "nat \<Rightarrow> TranscodingSession \<Rightarrow> TranscodingSession" where
  "onStderrProgress now session =
     (if lastPacketTime (stats session) = 0 \<or> int now - int (lastPacketTime (stats session)) > 5000
      then session\<lparr>stats := (stats session)\<lparr>lastPacketTime := now\<rparr>\<rparr>
      else session)"

subsection \<open>Stopping a session\<close>

text \<open>
  \<^verbatim>\<open>kill\<close> delivers a signal to a process that has not exited and then sets
  \<^verbatim>\<open>killed\<close>; on a process that has exited it does nothing.
\<close>

definition kill :: "signal \<Rightarrow> ChildProcess \<Rightarrow> ChildProcess" where
  "kill sig p = (if exited p then p else p\<lparr>killed := True, signals := signals p @ [sig]\<rparr>)"

text \<open>
  The last part of \<^verbatim>\<open>stopTranscoding\<close>: end standard input, send SIGTERM, and wait
  for the exit event or for the 5 s timer, whose callback sends SIGKILL when
  \<^verbatim>\<open>killed\<close> is not set.
\<close>

definition stopProcess :: "bool \<Rightarrow> ChildProcess \<Rightarrow> ChildProcess" where
  "stopProcess inGrace p =
     (let p1 = (if \<not> stdinDestroyed p then p\<lparr>stdinEnded := True\<rparr> else p);
          p2 = kill SIGTERM p1
      in if inGrace \<and> \<not> exited p2 then p2\<lparr>exited := True, stdinDestroyed := True\<rparr>
         else if \<not> killed p2 then kill SIGKILL p2
         else p2)"

definition map_PerKind :: "('a \<Rightarrow> 'b) \<Rightarrow> 'a PerKind \<Rightarrow> 'b PerKind" where
  "map_PerKind f pk = \<lparr> video = f (video pk), audio = f (audio pk) \<rparr>"

text \<open>What \<^verbatim>\<open>stopTranscoding\<close> does to the session object itself.\<close>

definition teardown :: "Env \<Rightarrow> TranscodingSession \<Rightarrow> TranscodingSession" where
  "teardown env session =
     session\<lparr> isActive := False,
              consumers :=
                map_PerKind (map_option (\<lambda>c. c\<lparr>consumerClosed := True\<rparr>)) (consumers session),
              plainTransports :=
                map_PerKind (map_option (\<lambda>t. t\<lparr>transportClosed := True\<rparr>)) (plainTransports session),
              rtpSockets :=
                map_PerKind (map_option (\<lambda>s. s\<lparr>socketClosed := True\<rparr>)) (rtpSockets session),
              process := map_option (stopProcess (exitsInGrace env)) (process session) \<rparr>"

text \<open>
  \<^verbatim>\<open>stopTranscoding\<close>: the state after the call, and the session object it tore down
  (\<open>None\<close> when the id is unknown and the call only warns). The collaborators'
  \<^verbatim>\<open>close\<close>, \<^verbatim>\<open>end\<close> and \<^verbatim>\<open>kill\<close> calls are taken not to throw.
\<close>

definition stopTranscoding :: "Env \<Rightarrow> string \<Rightarrow> HLSState \<Rightarrow> HLSState \<times> TranscodingSession option" where
  "stopTranscoding env sid st =
     (case map_of (sessions st) sid of
        None \<Rightarrow> (st, None)
      | Some session \<Rightarrow>
          (st\<lparr> usedPorts :=
                 set_delete (audio (rtpPorts session) + 1)
                   (set_delete (audio (rtpPorts session))
                      (set_delete (video (rtpPorts session) + 1)
                         (set_delete (video (rtpPorts session)) (usedPorts st)))),
               sessions := AList.delete sid (sessions st) \<rparr>,
           Some (teardown env session)))"

text \<open>
  \<^verbatim>\<open>stopTranscoding\<close> suspends once, at the \<^verbatim>\<open>await\<close> for the exit of the subprocess or
  the 5 s timer, and other calls and callbacks can run while it waits. The part up to the
  \<^verbatim>\<open>await\<close>: the session is marked inactive, its consumers, transports and sockets are
  closed, its four ports are deleted from the used-port set, standard input is ended and
  SIGTERM is sent; the session is still in the map. A session that has no process is
  deleted without suspension.
\<close>

definition signalProcess :: "ChildProcess \<Rightarrow> ChildProcess" where
  "signalProcess p = kill SIGTERM (if \<not> stdinDestroyed p then p\<lparr>stdinEnded := True\<rparr> else p)"

definition stopTranscoding_until_await :: "string \<Rightarrow> HLSState \<Rightarrow> HLSState" where
  "stopTranscoding_until_await sid st =
     (case map_of (sessions st) sid of
        None \<Rightarrow> st
      | Some session \<Rightarrow>
          (let closed =
                 session\<lparr> isActive := False,
                          consumers :=
                            map_PerKind (map_option (\<lambda>c. c\<lparr>consumerClosed := True\<rparr>)) (consumers session),
                          plainTransports :=
                            map_PerKind (map_option (\<lambda>t. t\<lparr>transportClosed := True\<rparr>))
                              (plainTransports session),
                          rtpSockets :=
                            map_PerKind (map_option (\<lambda>s. s\<lparr>socketClosed := True\<rparr>)) (rtpSockets session),
                          process := map_option signalProcess (process session) \<rparr>;
               released =
                 set_delete (audio (rtpPorts session) + 1)
                   (set_delete (audio (rtpPorts session))
                      (set_delete (video (rtpPorts session) + 1)
                         (set_delete (video (rtpPorts session)) (usedPorts st))))
           in if process session = None
              then st\<lparr> usedPorts := released, sessions := AList.delete sid (sessions st) \<rparr>
              else st\<lparr> usedPorts := released, sessions := AList.update sid closed (sessions st) \<rparr>))"

text \<open>
  The part of \<^verbatim>\<open>stopTranscoding\<close> after the \<^verbatim>\<open>await\<close>: \<^verbatim>\<open>state.sessions.delete(sessionId)\<close>,
  whatever is registered under the id by then.
\<close>

definition stopTranscoding_after_await :: "string \<Rightarrow> HLSState \<Rightarrow> HLSState" where
  "stopTranscoding_after_await sid st = st\<lparr>sessions := AList.delete sid (sessions st)\<rparr>"

definition cleanup :: "Env \<Rightarrow> HLSState \<Rightarrow> HLSState" where
  "cleanup env st = fold (\<lambda>sid s. fst (stopTranscoding env sid s)) (map fst (sessions st)) st"

subsection \<open>Starting a session\<close>

definition newSession ::
  "Env \<Rightarrow> string \<Rightarrow> string \<Rightarrow> nat PerKind \<Rightarrow> Producer option PerKind \<Rightarrow> TranscodingSession" where
  "newSession env sid path ports prods =
     \<lparr> sessionId = sid, process = None, isActive = True, startTime = dateNow env,
       outputPath = path, rtpPorts = ports,
       rtpSockets = \<lparr> video = None, audio = None \<rparr>,
       producers = prods,
       plainTransports = \<lparr> video = None, audio = None \<rparr>,
       consumers = \<lparr> video = None, audio = None \<rparr>,
       stats = \<lparr> packetsReceived = 0, bytesReceived = 0, lastPacketTime = 0 \<rparr> \<rparr>"

text \<open>
  The object literal \<^verbatim>\<open>rtpPorts\<close>: a port for each kind that has a producer, 0 for a
  kind that has none, video first.
\<close>

definition allocateRtpPorts ::
  "Producer option \<Rightarrow> Producer option \<Rightarrow> HLSState \<Rightarrow> nat PerKind \<times> HLSState" where
  "allocateRtpPorts videoProducer audioProducer st =
     (let (videoPort, st1) = (if videoProducer \<noteq> None then getAvailablePort st else (0, st));
          (audioPort, st2) = (if audioProducer \<noteq> None then getAvailablePort st1 else (0, st1))
      in (\<lparr> video = videoPort, audio = audioPort \<rparr>, st2))"

text \<open>
  The part of the \<^verbatim>\<open>try\<close> block that follows \<^verbatim>\<open>state.sessions.set\<close>: spawn, bind,
  connect. The session object is written back under its id on every exit.
\<close>

definition launch ::
  "Env \<Rightarrow> string \<Rightarrow> TranscodingSession \<Rightarrow> string \<Rightarrow> HLSState \<Rightarrow> (error + string) \<times> HLSState" where
  "launch env sid session playlistPath st =
     (case startFFmpegProcess (config st) env session playlistPath of
        Inl e \<Rightarrow> (Inl e, st)
      | Inr ffmpegProcess \<Rightarrow>
          (case connectProducersToRtp env
                  (setupRtpReceiversWithForwarding (session\<lparr>process := Some ffmpegProcess\<rparr>)) of
             (Some e, session') \<Rightarrow>
               (Inl e, st\<lparr>sessions := AList.update sid session' (sessions st)\<rparr>)
           | (None, session') \<Rightarrow>
               (Inr playlistPath, st\<lparr>sessions := AList.update sid session' (sessions st)\<rparr>)))"

text \<open>
  The \<^verbatim>\<open>try\<close> block of \<^verbatim>\<open>startTranscoding\<close>: the playlist path or the error thrown,
  with the state as it is at that point.
\<close>

definition startTranscoding_try ::
  "Env \<Rightarrow> string \<Rightarrow> Producer list \<Rightarrow> HLSState \<Rightarrow> (error + string) \<times> HLSState" where
  "startTranscoding_try env sid prods st =
     (if map_of (sessions st) sid \<noteq> None then (Inl (SessionExists sid), st)
      else if mkdirFails env then (Inl DirectoryError, st)
      else
        (let path = path_join [outputDir (config st), sid];
             videoProducer = find (\<lambda>p. kind p = Video) prods;
             audioProducer = find (\<lambda>p. kind p = Audio) prods
         in if videoProducer = None \<and> audioProducer = None then (Inl NoValidProducers, st)
            else
              (let (ports, st2) = allocateRtpPorts videoProducer audioProducer st;
                   playlistPath = path_join [path, ''playlist.m3u8''];
                   session = newSession env sid path ports
                               \<lparr> video = videoProducer, audio = audioProducer \<rparr>
               in launch env sid session playlistPath
                    (st2\<lparr>sessions := AList.update sid session (sessions st2)\<rparr>))))"

text \<open>
  \<^verbatim>\<open>startTranscoding\<close>: the \<^verbatim>\<open>catch\<close> block calls \<^verbatim>\<open>stopTranscoding(sessionId)\<close> and
  throws the error again.
\<close>

definition startTranscoding ::
  "Env \<Rightarrow> string \<Rightarrow> Producer list \<Rightarrow> HLSState \<Rightarrow> (error + string) \<times> HLSState" where
  "startTranscoding env sid prods st =
     (case startTranscoding_try env sid prods st of
        (Inr playlistPath, st1) \<Rightarrow> (Inr playlistPath, st1)
      | (Inl e, st1) \<Rightarrow> (Inl e, fst (stopTranscoding env sid st1)))"

subsection \<open>Session recovery\<close>

text \<open>
  The steps of \<^verbatim>\<open>recoverSession\<close>; \<^verbatim>\<open>address()\<close> throws on a socket that is closed.
\<close>

definition recoverSocket ::
  "Env \<Rightarrow> media_kind \<Rightarrow> TranscodingSession \<Rightarrow> error option \<times> TranscodingSession" where
  "recoverSocket env k session =
     (case sel k (producers session) of
        None \<Rightarrow> (None, session)
      | Some producer \<Rightarrow>
          (case sel k (rtpSockets session) of
             None \<Rightarrow> (None, attemptSocketRecovery env k session)
           | Some sock \<Rightarrow>
               if socketClosed sock then (Some SocketNotRunning, session) else (None, session)))"

definition recoverTransport ::
  "Env \<Rightarrow> media_kind \<Rightarrow> TranscodingSession \<Rightarrow> error option \<times> TranscodingSession" where
  "recoverTransport env k session =
     (case sel k (producers session) of
        None \<Rightarrow> (None, session)
      | Some producer \<Rightarrow>
          if sel k (consumers session) \<noteq> None then (None, session)
          else (case createPlainTransportForProducer (sel k (transportFails env)) producer
                       (sel k (rtpPorts session)) of
                  Inl e \<Rightarrow> (Some e, session)
                | Inr (transport, consumer) \<Rightarrow>
                    (None, session\<lparr>plainTransports := upd k (Some transport) (plainTransports session),
                                   consumers := upd k (Some consumer) (consumers session)\<rparr>)))"

definition recoverProcess ::
  "HLSConfig \<Rightarrow> Env \<Rightarrow> TranscodingSession \<Rightarrow> error option \<times> TranscodingSession" where
  "recoverProcess cfg env session =
     (if (case process session of None \<Rightarrow> True | Some p \<Rightarrow> killed p)
      then (case startFFmpegProcess cfg env session
                   (path_join [outputPath session, ''playlist.m3u8'']) of
              Inl e \<Rightarrow> (Some e, session)
            | Inr newProcess \<Rightarrow> (None, session\<lparr>process := Some newProcess\<rparr>))
      else (None, session))"

definition andThen ::
  "error option \<times> TranscodingSession
     \<Rightarrow> (TranscodingSession \<Rightarrow> error option \<times> TranscodingSession)
     \<Rightarrow> error option \<times> TranscodingSession" where
  "andThen r f = (case r of (Some e, session) \<Rightarrow> (Some e, session) | (None, session) \<Rightarrow> f session)"

text \<open>
  \<^verbatim>\<open>recoverSession\<close> on a tracked session object: whether it returned true, and the
  object afterwards.
\<close>

definition recoverSession_try ::
  "HLSConfig \<Rightarrow> Env \<Rightarrow> TranscodingSession \<Rightarrow> bool \<times> TranscodingSession" where
  "recoverSession_try cfg env session =
     (case andThen (andThen (andThen (andThen (recoverProcess cfg env session)
                      (recoverSocket env Video)) (recoverSocket env Audio))
                      (recoverTransport env Video)) (recoverTransport env Audio) of
        (Some e, session') \<Rightarrow> (False, session')
      | (None, session') \<Rightarrow> (True, session'\<lparr>isActive := True\<rparr>))"

definition recoverSession :: "Env \<Rightarrow> string \<Rightarrow> HLSState \<Rightarrow> bool \<times> HLSState" where
  "recoverSession env sid st =
     (case map_of (sessions st) sid of
        None \<Rightarrow> (False, st)
      | Some session \<Rightarrow>
          (case recoverSession_try (config st) env session of
             (ok, session') \<Rightarrow> (ok, st\<lparr>sessions := AList.update sid session' (sessions st)\<rparr>)))"

subsection \<open>The transcoder as a state machine\<close>

text \<open>
  One event is one call of the public interface that runs to its end with nothing in
  between, or one callback of a tracked session's socket, subprocess or timer. A call of
  \<^verbatim>\<open>stopTranscoding\<close> that other events overlap is the two events \<open>StopUntilAwait\<close> and
  \<open>StopAfterAwait\<close>. The read-only operations (\<^verbatim>\<open>getSessionInfo\<close>,
  \<^verbatim>\<open>getActiveSessions\<close>, \<^verbatim>\<open>healthCheck\<close>, \<^verbatim>\<open>getRtpStats\<close>, \<^verbatim>\<open>monitorRtpFlow\<close>,
  \<^verbatim>\<open>monitorStreamQuality\<close>, \<^verbatim>\<open>getResourceUsage\<close>) assign nothing and are no events.
\<close>

datatype event =
    Start Env string "Producer list"
  | Stop Env string
  | StopUntilAwait string
  | StopAfterAwait string
  | Cleanup Env
  | RtpMessage string media_kind "nat list" nat
  | ProcessExit Env string "int option" "signal option"
  | SocketError Env string media_kind
  | Recover Env string
  | StderrProgress string nat

definition onSession ::
  "string \<Rightarrow> (TranscodingSession \<Rightarrow> TranscodingSession) \<Rightarrow> HLSState \<Rightarrow> HLSState" where
  "onSession sid f st =
     (case map_of (sessions st) sid of
        None \<Rightarrow> st
      | Some session \<Rightarrow> st\<lparr>sessions := AList.update sid (f session) (sessions st)\<rparr>)"

fun step :: "event \<Rightarrow> HLSState \<Rightarrow> HLSState" where
  "step (Start env sid prods) st = snd (startTranscoding env sid prods st)"
| "step (Stop env sid) st = fst (stopTranscoding env sid st)"
| "step (StopUntilAwait sid) st = stopTranscoding_until_await sid st"
| "step (StopAfterAwait sid) st = stopTranscoding_after_await sid st"
| "step (Cleanup env) st = cleanup env st"
| "step (RtpMessage sid k rtpPacket now) st = onSession sid (deliver k rtpPacket now) st"
| "step (ProcessExit env sid code sig) st = onSession sid (processExit (config st) env code sig) st"
| "step (SocketError env sid k) st = onSession sid (attemptSocketRecovery env k) st"
| "step (Recover env sid) st = snd (recoverSession env sid st)"
| "step (StderrProgress sid now) st = onSession sid (onStderrProgress now) st"

definition run :: "event list \<Rightarrow> HLSState \<Rightarrow> HLSState" where
  "run evs st = fold step evs st"

subsection \<open>Adaptive bitrate\<close>

record Quality =
  name :: string
  qualityResolution :: string
  bitrate :: string

definition qualities :: "Quality list" where
  "qualities =
     [\<lparr> name = ''720p'', qualityResolution = ''1280x720'', bitrate = ''2500k'' \<rparr>,
      \<lparr> name = ''480p'', qualityResolution = ''854x480'', bitrate = ''1200k'' \<rparr>,
      \<lparr> name = ''360p'', qualityResolution = ''640x360'', bitrate = ''800k'' \<rparr>]"

definition newline :: string where
  "newline = [CHR 0x0A]"

definition dquote :: string where
  "dquote = [CHR 0x22]"

text \<open>The two lines one quality adds to the master playlist.\<close>

definition masterEntry :: "Quality \<Rightarrow> string" where
  "masterEntry quality =
     (let bandwidth = map_option (\<lambda>n. n * 1000) (parseInt (remove1 CHR ''k'' (bitrate quality)));
          dims = map Number (split_on CHR ''x'' (qualityResolution quality));
          width = (case dims of [] \<Rightarrow> ''undefined'' | w # _ \<Rightarrow> showNumber w);
          height = (case dims of w # h # _ \<Rightarrow> showNumber h | _ \<Rightarrow> ''undefined'')
      in ''#EXT-X-STREAM-INF:BANDWIDTH='' @ showNumber bandwidth @ '',RESOLUTION='' @ width @ ''x''
           @ height @ '',NAME='' @ dquote @ name quality @ dquote @ newline
           @ name quality @ ''/playlist.m3u8'' @ newline @ newline)"

text \<open>
  \<^verbatim>\<open>createMasterPlaylist\<close>: the path and the content handed to \<^verbatim>\<open>fs.writeFile\<close>.
\<close>

definition createMasterPlaylist ::
  "HLSState \<Rightarrow> string \<Rightarrow> Quality list \<Rightarrow> string list \<Rightarrow> string \<times> string" where
  "createMasterPlaylist st sid qs playlistUrls =
     (path_join [outputDir (config st), sid, ''master.m3u8''],
      foldl (\<lambda>masterContent quality. masterContent @ masterEntry quality)
        (''#EXTM3U'' @ newline @ ''#EXT-X-VERSION:3'' @ newline @ newline) qs)"

text \<open>
  The loop of \<^verbatim>\<open>startAdaptiveTranscoding\<close> from index \<open>i\<close> on: every quality gets a
  transcoder of its own (\<^verbatim>\<open>createHLSTranscoder(customConfig)\<close>), initialised and started
  with the environment \<open>envs i\<close>. The result is the playlist paths or the first error,
  with the transcoders created.
\<close>

fun adaptiveLoop ::
  "(nat \<Rightarrow> Env) \<Rightarrow> HLSConfig \<Rightarrow> string \<Rightarrow> Producer list \<Rightarrow> nat \<Rightarrow> Quality list
     \<Rightarrow> (error + string list) \<times> HLSState list" where
  "adaptiveLoop envs cfg sid prods i [] = (Inr [], [])"
| "adaptiveLoop envs cfg sid prods i (quality # rest) =
     (let qualitySessionId = sid @ ''_'' @ name quality;
          customConfig = cfg\<lparr> resolution := qualityResolution quality,
                              videoBitrate := bitrate quality,
                              baseRtpPort := baseRtpPort cfg + i * 100 \<rparr>;
          transcoder = createHLSTranscoder customConfig
      in if mkdirFails (envs i) then (Inl DirectoryError, [])
         else (case startTranscoding (envs i) qualitySessionId prods transcoder of
                 (Inl e, transcoder') \<Rightarrow> (Inl e, [transcoder'])
               | (Inr playlistUrl, transcoder') \<Rightarrow>
                   (case adaptiveLoop envs cfg sid prods (i + 1) rest of
                      (Inl e, ts) \<Rightarrow> (Inl e, transcoder' # ts)
                    | (Inr urls, ts) \<Rightarrow> (Inr (playlistUrl # urls), transcoder' # ts))))"

text \<open>
  \<^verbatim>\<open>startAdaptiveTranscoding\<close>: the playlist paths returned or the error thrown, the
  transcoders of the tiers, and the master playlist file when it was written.
\<close>

definition startAdaptiveTranscoding ::
  "Env \<Rightarrow> (nat \<Rightarrow> Env) \<Rightarrow> string \<Rightarrow> Producer list \<Rightarrow> HLSState
     \<Rightarrow> (error + string list) \<times> HLSState list \<times> (string \<times> string) option" where
  "startAdaptiveTranscoding env envs sid prods st =
     (case adaptiveLoop envs (config st) sid prods 0 qualities of
        (Inl e, ts) \<Rightarrow> (Inl e, ts, None)
      | (Inr playlistUrls, ts) \<Rightarrow>
          if writeFails env then (Inl WriteError, ts, None)
          else (Inr playlistUrls, ts, Some (createMasterPlaylist st sid qualities playlistUrls)))"

text \<open>
  A player resolves the URI line of a master playlist against the directory of the
  master playlist.
\<close>

definition resolveUri :: "string \<Rightarrow> string \<Rightarrow> string" where
  "resolveUri masterPlaylistPath uri = path_join [path_dirname masterPlaylistPath, uri]"

section \<open>Notions used in the statements\<close>


text \<open>
  A session id is tracked before every event of a sequence and after the last one.
\<close>

fun trackedAlong :: "string \<Rightarrow> event list \<Rightarrow> HLSState \<Rightarrow> bool" where
  "trackedAlong i [] st = (map_of (sessions st) i \<noteq> None)"
| "trackedAlong i (e # es) st = (map_of (sessions st) i \<noteq> None \<and> trackedAlong i es (step e st))"

text \<open>
  The URI lines of a playlist: the lines that are not empty and are no tags or comments.
\<close>

definition uriLines :: "string \<Rightarrow> string list" where
  "uriLines content = filter (\<lambda>l. l \<noteq> [] \<and> hd l \<noteq> CHR ''#'') (split_on (CHR 0x0A) content)"

definition sessionIds :: "HLSState \<Rightarrow> string list" where
  "sessionIds st = map fst (sessions st)"

text \<open>
  What every step maintains of a session object while it is tracked: its ports, its
  producers, and counters that are at least what they were.
\<close>

definition keeps :: "TranscodingSession \<Rightarrow> TranscodingSession \<Rightarrow> bool" where
  "keeps s s' \<longleftrightarrow>
     rtpPorts s' = rtpPorts s \<and> producers s' = producers s
     \<and> packetsReceived (stats s) \<le> packetsReceived (stats s')
     \<and> bytesReceived (stats s) \<le> bytesReceived (stats s')"



text \<open>
  The sums that the next \<open>n\<close> reservations form are at most \<^verbatim>\<open>Number.MAX_SAFE_INTEGER\<close>: a
  reservation returns at most the base plus twice the number of used ports, adds 1 to it
  and leaves two more ports in the set.
\<close>

definition exactFor :: "nat \<Rightarrow> HLSState \<Rightarrow> bool" where
  "exactFor n st \<longleftrightarrow>
     baseRtpPort (config st) + 2 * length (usedPorts st) + 4 * n \<le> MAX_SAFE_INTEGER"



section \<open>Example inputs\<close>

text \<open>
  An environment in which nothing fails and no datagram arrives during the start, one
  producer of each kind, and the states reached from a new transcoder with the default
  configuration by starting session s1 with both producers and then session s2 with the
  video producer.
\<close>

definition exampleEnv :: Env where
  "exampleEnv = \<lparr> dateNow = 1000, mkdirFails = False, spawned = Some 4242,
      transportFails = \<lparr> video = False, audio = False \<rparr>, arrivals = (\<lambda>k. []),
      exitsInGrace = True, bindOk = \<lparr> video = True, audio = True \<rparr>, writeFails = False \<rparr>"

definition exampleEnv2 :: Env where
  "exampleEnv2 = exampleEnv\<lparr>spawned := Some 4243\<rparr>"

definition exampleEnvs :: "nat \<Rightarrow> Env" where
  "exampleEnvs i = exampleEnv"


definition videoSource :: Producer where "videoSource = \<lparr> producerId = ''pv'', kind = Video, router = True \<rparr>"

definition audioSource :: Producer where "audioSource = \<lparr> producerId = ''pa'', kind = Audio, router = True \<rparr>"

definition exampleProcess :: ChildProcess where
  "exampleProcess =
     \<lparr> pid = 4242,
       args = ffmpegArgs DEFAULT_HLS_CONFIG \<lparr> video = Some videoSource, audio = Some audioSource \<rparr>
                (path_join [path_join [''./hls-output'', ''s1''], ''playlist.m3u8'']),
       stdinData = [], stdinDestroyed = False, stdinEnded = False,
       killed = False, signals = [], exited = False \<rparr>"

definition exampleSession :: TranscodingSession where
  "exampleSession =
     \<lparr> sessionId = ''s1'', process = Some exampleProcess, isActive = True, startTime = 1000,
       outputPath = path_join [''./hls-output'', ''s1''],
       rtpPorts = \<lparr> video = 20000, audio = 20002 \<rparr>,
       rtpSockets =
         \<lparr> video = Some \<lparr> boundPort = 20000, onMessage = StatsAndForward, socketClosed = False \<rparr>,
           audio = Some \<lparr> boundPort = 20002, onMessage = StatsAndForward, socketClosed = False \<rparr> \<rparr>,
       producers = \<lparr> video = Some videoSource, audio = Some audioSource \<rparr>,
       plainTransports =
         \<lparr> video = Some \<lparr> remotePort = 20000, transportClosed = False \<rparr>,
           audio = Some \<lparr> remotePort = 20002, transportClosed = False \<rparr> \<rparr>,
       consumers =
         \<lparr> video = Some \<lparr> consumedProducer = ''pv'', consumerClosed = False \<rparr>,
           audio = Some \<lparr> consumedProducer = ''pa'', consumerClosed = False \<rparr> \<rparr>,
       stats = \<lparr> packetsReceived = 0, bytesReceived = 0, lastPacketTime = 0 \<rparr> \<rparr>"

definition exampleState :: HLSState where
  "exampleState =
     \<lparr> config = DEFAULT_HLS_CONFIG, sessions = [(''s1'', exampleSession)],
       usedPorts = [20000, 20001, 20002, 20003] \<rparr>"

definition exampleSession2 :: TranscodingSession where
  "exampleSession2 =
     \<lparr> sessionId = ''s2'',
       process = Some \<lparr> pid = 4243,
                       args = ffmpegArgs DEFAULT_HLS_CONFIG \<lparr> video = Some videoSource, audio = None \<rparr>
                                (path_join [path_join [''./hls-output'', ''s2''], ''playlist.m3u8'']),
                       stdinData = [], stdinDestroyed = False, stdinEnded = False,
                       killed = False, signals = [], exited = False \<rparr>,
       isActive = True, startTime = 1000,
       outputPath = path_join [''./hls-output'', ''s2''],
       rtpPorts = \<lparr> video = 20004, audio = 0 \<rparr>,
       rtpSockets =
         \<lparr> video = Some \<lparr> boundPort = 20004, onMessage = StatsAndForward, socketClosed = False \<rparr>,
           audio = None \<rparr>,
       producers = \<lparr> video = Some videoSource, audio = None \<rparr>,
       plainTransports =
         \<lparr> video = Some \<lparr> remotePort = 20004, transportClosed = False \<rparr>, audio = None \<rparr>,
       consumers =
         \<lparr> video = Some \<lparr> consumedProducer = ''pv'', consumerClosed = False \<rparr>, audio = None \<rparr>,
       stats = \<lparr> packetsReceived = 0, bytesReceived = 0, lastPacketTime = 0 \<rparr> \<rparr>"

definition exampleState2 :: HLSState where
  "exampleState2 =
     \<lparr> config = DEFAULT_HLS_CONFIG,
       sessions = [(''s1'', exampleSession), (''s2'', exampleSession2)],
       usedPorts = [20000, 20001, 20002, 20003, 20004, 20005] \<rparr>"

text \<open>
  Events on session s1, with a start and a stop of session s2 between them, and the
  object of session s1 after them; ten datagrams that arrive before the first poll of the
  synchronizer.
\<close>

definition exampleEvents :: "event list" where
  "exampleEvents =
     [RtpMessage ''s1'' Video [1, 2, 3] 5000, Start exampleEnv2 ''s2'' [videoSource],
      ProcessExit exampleEnv ''s1'' (Some 1) None, RtpMessage ''s1'' Audio [4, 5] 6000,
      Stop exampleEnv ''s2'', StderrProgress ''s1'' 12000]"

definition exampleSessionLater :: TranscodingSession where
  "exampleSessionLater =
     onStderrProgress 12000
       (deliver Audio [4, 5] 6000
          (processExit DEFAULT_HLS_CONFIG exampleEnv (Some 1) None
             (deliver Video [1, 2, 3] 5000 exampleSession)))"

definition tenPackets :: "nat \<Rightarrow> (media_kind \<times> nat list \<times> nat) list" where
  "tenPackets k =
     (if k = 1
      then [(Video, [128, 96], 1010), (Video, [128, 96], 1020), (Video, [128, 96], 1030),
            (Video, [128, 96], 1040), (Video, [128, 96], 1050), (Video, [128, 96], 1060),
            (Video, [128, 96], 1070), (Video, [128, 96], 1080), (Video, [128, 96], 1090),
            (Video, [128, 96], 1095)]
      else [])"


definition oddBaseConfig :: HLSConfig where
  "oddBaseConfig = DEFAULT_HLS_CONFIG\<lparr>baseRtpPort := 20001\<rparr>"



text \<open>
  The master playlist of the built-in qualities.
\<close>

definition exampleMaster :: string where
  "exampleMaster =
     ''#EXTM3U'' @ newline @ ''#EXT-X-VERSION:3'' @ newline @ newline
     @ ''#EXT-X-STREAM-INF:BANDWIDTH=2500000,RESOLUTION=1280x720,NAME='' @ dquote @ ''720p'' @ dquote
     @ newline @ ''720p/playlist.m3u8'' @ newline @ newline
     @ ''#EXT-X-STREAM-INF:BANDWIDTH=1200000,RESOLUTION=854x480,NAME='' @ dquote @ ''480p'' @ dquote
     @ newline @ ''480p/playlist.m3u8'' @ newline @ newline
     @ ''#EXT-X-STREAM-INF:BANDWIDTH=800000,RESOLUTION=640x360,NAME='' @ dquote @ ''360p'' @ dquote
     @ newline @ ''360p/playlist.m3u8'' @ newline @ newline"

section \<open>Properties of the model\<close>

subsection \<open>The allocation loop\<close>

text \<open>
  The loop returns a port that is not in the set, at or above its start, of the parity
  of its start, and every port of that parity between the start and the result is in
  the set.
\<close>

lemma loop_unused: "getAvailablePort_loop used port \<notin> set used"
  by (induction used port rule: getAvailablePort_loop.induct)
     (subst getAvailablePort_loop.simps, simp)

lemma loop_ge: "port \<le> getAvailablePort_loop used port"
proof (induction used port rule: getAvailablePort_loop.induct)
  case (1 used port)
  show ?case
  proof (cases "port \<in> set used")
    case True
    with 1 have "port + 2 \<le> getAvailablePort_loop used (port + 2)" by simp
    with True show ?thesis by (subst getAvailablePort_loop.simps) simp
  next
    case False
    then show ?thesis by (subst getAvailablePort_loop.simps) simp
  qed
qed

lemma loop_parity: "even (getAvailablePort_loop used port) = even port"
proof (induction used port rule: getAvailablePort_loop.induct)
  case (1 used port)
  show ?case
  proof (cases "port \<in> set used")
    case True
    with 1 have "even (getAvailablePort_loop used (port + 2)) = even (port + 2)" by simp
    with True show ?thesis by (subst getAvailablePort_loop.simps) simp
  next
    case False
    then show ?thesis by (subst getAvailablePort_loop.simps) simp
  qed
qed

lemma loop_lowest:
  "port \<le> q \<Longrightarrow> q < getAvailablePort_loop used port \<Longrightarrow> even q = even port \<Longrightarrow> q \<in> set used"
proof (induction used port rule: getAvailablePort_loop.induct)
  case (1 used port)
  show ?case
  proof (cases "port \<in> set used")
    case True
    then have unfold: "getAvailablePort_loop used port = getAvailablePort_loop used (port + 2)"
      by (subst getAvailablePort_loop.simps) simp
    show ?thesis
    proof (cases "q = port")
      case True
      with \<open>port \<in> set used\<close> show ?thesis by simp
    next
      case False
      with "1.prems" have "port + 2 \<le> q" by presburger
      moreover from "1.prems" unfold have "q < getAvailablePort_loop used (port + 2)" by simp
      moreover from "1.prems" have "even q = even (port + 2)" by simp
      ultimately show ?thesis using "1.IH" True by blast
    qed
  next
    case False
    then have "getAvailablePort_loop used port = port"
      by (subst getAvailablePort_loop.simps) simp
    with "1.prems" show ?thesis by simp
  qed
qed

lemma loop_le:
  "getAvailablePort_loop used port \<le> port + 2 * length (filter (\<lambda>q. port \<le> q) used)"
proof (induction used port rule: getAvailablePort_loop.induct)
  case (1 used port)
  show ?case
  proof (cases "port \<in> set used")
    case True
    with 1 have "getAvailablePort_loop used (port + 2)
        \<le> port + 2 + 2 * length (filter (\<lambda>q. port + 2 \<le> q) used)"
      by simp
    moreover have "length (filter (\<lambda>q. port + 2 \<le> q) used) < length (filter (\<lambda>q. port \<le> q) used)"
      using True by (rule filter_ge_shrinks)
    ultimately have "getAvailablePort_loop used (port + 2)
        \<le> port + 2 * length (filter (\<lambda>q. port \<le> q) used)"
      by linarith
    with True show ?thesis by (subst getAvailablePort_loop.simps) simp
  next
    case False
    then show ?thesis by (subst getAvailablePort_loop.simps) simp
  qed
qed

lemma set_set_add: "set (set_add p ps) = insert p (set ps)"
  by (auto simp: set_add_def)

lemma set_set_delete: "set (set_delete p ps) = set ps - {p}"
  by (auto simp: set_delete_def)

lemma getAvailablePort_used:
  "set (usedPorts (snd (getAvailablePort st)))
     = insert (fst (getAvailablePort st)) (insert (fst (getAvailablePort st) + 1) (set (usedPorts st)))"
  by (auto simp: getAvailablePort_def Let_def set_set_add)

lemma getAvailablePort_fst:
  "fst (getAvailablePort st) = getAvailablePort_loop (usedPorts st) (baseRtpPort (config st))"
  by (simp add: getAvailablePort_def Let_def)

lemma getAvailablePort_frame:
  "config (snd (getAvailablePort st)) = config st" "sessions (snd (getAvailablePort st)) = sessions st"
  by (simp_all add: getAvailablePort_def Let_def)

lemma getAvailablePort_le:
  "fst (getAvailablePort st) \<le> baseRtpPort (config st) + 2 * length (usedPorts st)"
proof -
  have "getAvailablePort_loop (usedPorts st) (baseRtpPort (config st))
      \<le> baseRtpPort (config st)
          + 2 * length (filter (\<lambda>q. baseRtpPort (config st) \<le> q) (usedPorts st))"
    by (rule loop_le)
  also have "\<dots> \<le> baseRtpPort (config st) + 2 * length (usedPorts st)"
    by simp
  finally show ?thesis
    by (simp add: getAvailablePort_def Let_def)
qed

subsection \<open>What the callbacks keep of a session\<close>

lemma keeps_refl: "keeps s s"
  by (simp add: keeps_def)

lemma keeps_trans: "keeps a b \<Longrightarrow> keeps b c \<Longrightarrow> keeps a c"
  by (auto simp: keeps_def)

lemma keeps_forwardToStdin: "keeps s (forwardToStdin pkt s)"
  by (simp add: keeps_def forwardToStdin_def split: option.splits)

lemma keeps_onRtpMessage: "keeps s (onRtpMessage pkt now s)"
  by (simp add: keeps_def onRtpMessage_def forwardToStdin_def split: option.splits)

lemma keeps_deliver: "keeps s (deliver k pkt now s)"
  by (simp add: deliver_def onRecoveredMessage_def keeps_forwardToStdin keeps_onRtpMessage
      keeps_refl split: option.splits message_handler.splits)

lemma keeps_deliverAll: "keeps s (deliverAll ds s)"
proof (induction ds arbitrary: s)
  case Nil
  show ?case by (simp add: deliverAll_def keeps_refl)
next
  case (Cons d ds)
  obtain k pkt now where d: "d = (k, pkt, now)" by (cases d) auto
  have "keeps s (deliver k pkt now s)" by (rule keeps_deliver)
  moreover have "keeps (deliver k pkt now s) (deliverAll ds (deliver k pkt now s))"
    by (rule Cons.IH)
  ultimately have "keeps s (deliverAll ds (deliver k pkt now s))"
    by (rule keeps_trans)
  then show ?case
    by (simp add: deliverAll_def d)
qed

lemma keeps_setupKind: "keeps s (setupKind k s)"
  by (simp add: keeps_def setupKind_def)

lemma keeps_setup: "keeps s (setupRtpReceiversWithForwarding s)"
  unfolding setupRtpReceiversWithForwarding_def
  by (rule keeps_trans [OF keeps_setupKind keeps_setupKind])

lemma keeps_attemptSocketRecovery: "keeps s (attemptSocketRecovery env k s)"
  by (simp add: keeps_def attemptSocketRecovery_def)

text \<open>
  The synchronizer: the polling ends with a resolved promise for every arrival pattern
  and every timeout.
\<close>

lemma poll_resolves:
  "\<exists>r. fst (waitForRtpFlow_poll arr t i k s) = Inr r"
proof (induction arr t i k s rule: waitForRtpFlow_poll.induct)
  case (1 arr timeoutMs initialPacketCount k session)
  then show ?case
    by (subst waitForRtpFlow_poll.simps) auto
qed

lemma keeps_poll: "keeps s (snd (waitForRtpFlow_poll arr t i k s))"
proof (induction arr t i k s rule: waitForRtpFlow_poll.induct)
  case (1 arr timeoutMs initialPacketCount k session)
  have here: "keeps session (deliverAll (arr k) session)"
    by (rule keeps_deliverAll)
  show ?case
  proof (cases "int (packetsReceived (stats (deliverAll (arr k) session))) - int initialPacketCount > 10
                 \<or> 100 * k > timeoutMs")
    case True
    then show ?thesis
      using here by (subst waitForRtpFlow_poll.simps) auto
  next
    case False
    then have "keeps (deliverAll (arr k) session)
        (snd (waitForRtpFlow_poll arr timeoutMs initialPacketCount (k + 1) (deliverAll (arr k) session)))"
      using "1.IH" by simp
    with here have "keeps session
        (snd (waitForRtpFlow_poll arr timeoutMs initialPacketCount (k + 1) (deliverAll (arr k) session)))"
      by (rule keeps_trans)
    with False show ?thesis
      by (subst waitForRtpFlow_poll.simps) auto
  qed
qed

lemma waitForRtpFlow_resolves: "\<exists>r. fst (waitForRtpFlow env s t) = Inr r"
  unfolding waitForRtpFlow_def by (rule poll_resolves)

lemma thrown_wait:
  "\<exists>s'. thrown (waitForRtpFlow env s t) = (None, s') \<and> keeps s s'"
proof -
  have "\<exists>r. fst (waitForRtpFlow env s t) = Inr r"
    unfolding waitForRtpFlow_def by (rule poll_resolves)
  moreover have "keeps s (snd (waitForRtpFlow env s t))"
    by (simp add: waitForRtpFlow_def keeps_poll)
  ultimately show ?thesis
    by (cases "waitForRtpFlow env s t") (auto simp: thrown_def)
qed

lemma synchronizeStreams_ok:
  "\<exists>s'. synchronizeStreams env s = (None, s') \<and> keeps s s'"
  using thrown_wait by (auto simp: synchronizeStreams_def keeps_refl)

lemma keeps_connectKind: "keeps s (snd (connectKind env k s))"
  by (auto simp: connectKind_def keeps_def split: option.splits sum.splits)

lemma keeps_connect: "keeps s (snd (connectProducersToRtp env s))"
proof -
  obtain e1 s1 where v: "connectKind env Video s = (e1, s1)" by (cases "connectKind env Video s")
  obtain e2 s2 where a: "connectKind env Audio s1 = (e2, s2)" by (cases "connectKind env Audio s1")
  obtain s3 where y: "synchronizeStreams env s2 = (None, s3)" and k3: "keeps s2 s3"
    using synchronizeStreams_ok by blast
  have k1: "keeps s s1" using keeps_connectKind [of s env Video] v by simp
  have k2: "keeps s1 s2" using keeps_connectKind [of s1 env Audio] a by simp
  have k12: "keeps s s2" by (rule keeps_trans [OF k1 k2])
  have k13: "keeps s s3" by (rule keeps_trans [OF k12 k3])
  show ?thesis
    using v a y k1 k12 k13
    by (cases e1; cases e2) (simp_all add: connectProducersToRtp_def)
qed

lemma keeps_onExit: "keeps s (fst (onExit code sig s))"
  by (simp add: onExit_def keeps_def Let_def)

lemma onExit_no_restart: "snd (onExit code sig s) = None"
  by (simp add: onExit_def Let_def)

lemma processExit_eq:
  "processExit cfg env code sig s =
     s\<lparr>process := map_option (\<lambda>p. p\<lparr>exited := True, stdinDestroyed := True\<rparr>) (process s),
        isActive := False\<rparr>"
  by (simp add: processExit_def onExit_def Let_def)

lemma keeps_processExit: "keeps s (processExit cfg env code sig s)"
  by (simp add: processExit_eq keeps_def)

lemma keeps_onStderrProgress: "keeps s (onStderrProgress now s)"
  by (simp add: onStderrProgress_def keeps_def)

lemma keeps_recoverProcess: "keeps s (snd (recoverProcess cfg env s))"
  by (auto simp: recoverProcess_def keeps_def split: sum.splits)

lemma keeps_recoverSocket: "keeps s (snd (recoverSocket env k s))"
  by (auto simp: recoverSocket_def keeps_refl keeps_attemptSocketRecovery split: option.splits)

lemma keeps_recoverTransport: "keeps s (snd (recoverTransport env k s))"
  by (auto simp: recoverTransport_def keeps_def split: option.splits sum.splits)

lemma keeps_andThen:
  assumes "keeps s (snd r)" and "\<And>x. keeps x (snd (f x))"
  shows "keeps s (snd (andThen r f))"
proof (cases r)
  case (Pair e x)
  show ?thesis
  proof (cases e)
    case None
    have "keeps s (snd (f x))"
      using assms(1) assms(2) [of x] Pair by (auto intro: keeps_trans)
    with None Pair show ?thesis by (simp add: andThen_def)
  next
    case (Some err)
    with Pair assms(1) show ?thesis by (simp add: andThen_def)
  qed
qed

lemma keeps_recoverSession_try: "keeps s (snd (recoverSession_try cfg env s))"
proof -
  have "keeps s (snd (andThen (andThen (andThen (andThen (recoverProcess cfg env s)
                      (recoverSocket env Video)) (recoverSocket env Audio))
                      (recoverTransport env Video)) (recoverTransport env Audio)))"
    by (intro keeps_andThen keeps_recoverProcess keeps_recoverSocket keeps_recoverTransport)
  then show ?thesis
    by (auto simp: recoverSession_try_def keeps_def split: prod.splits option.splits)
qed

subsection \<open>The registry after an operation\<close>

lemma map_of_update:
  "map_of (AList.update k v al) k' = (if k' = k then Some v else map_of al k')"
  by (simp add: update_conv')

lemma map_of_delete:
  "map_of (AList.delete k al) k' = (if k' = k then None else map_of al k')"
  by (simp add: delete_conv')

lemma onSession_sessions:
  "map_of (sessions (onSession sid f st)) j
     = (if j = sid then map_option f (map_of (sessions st) sid) else map_of (sessions st) j)"
  by (simp add: onSession_def map_of_update split: option.splits)

lemma onSession_frame:
  "usedPorts (onSession sid f st) = usedPorts st" "config (onSession sid f st) = config st"
  by (simp_all add: onSession_def split: option.splits)

lemma stop_sessions:
  "map_of (sessions (fst (stopTranscoding env sid st))) j
     = (if j = sid then None else map_of (sessions st) j)"
  by (simp add: stopTranscoding_def map_of_delete split: option.splits)

lemma stop_config: "config (fst (stopTranscoding env sid st)) = config st"
  by (simp add: stopTranscoding_def split: option.splits)

lemma stop_used:
  "set (usedPorts (fst (stopTranscoding env sid st)))
     = (case map_of (sessions st) sid of
          None \<Rightarrow> set (usedPorts st)
        | Some s \<Rightarrow> set (usedPorts st)
             - {video (rtpPorts s), video (rtpPorts s) + 1, audio (rtpPorts s), audio (rtpPorts s) + 1})"
  by (auto simp: stopTranscoding_def set_set_delete split: option.splits)

lemma stop_unknown: "map_of (sessions st) sid = None \<Longrightarrow> stopTranscoding env sid st = (st, None)"
  by (simp add: stopTranscoding_def)

lemma delete_absent: "map_of al k = None \<Longrightarrow> AList.delete k al = al"
  by (induction al) (auto split: if_splits)

text \<open>
  A call of \<^verbatim>\<open>stopTranscoding\<close> that nothing overlaps is its two halves, one after the
  other.
\<close>

lemma stop_two_halves:
  "fst (stopTranscoding env sid st) = stopTranscoding_after_await sid (stopTranscoding_until_await sid st)"
  by (cases "map_of (sessions st) sid")
     (simp_all add: stopTranscoding_def stopTranscoding_until_await_def
        stopTranscoding_after_await_def delete_absent delete_update_same delete_idem Let_def)

lemma until_await_sessions:
  "map_of (sessions (stopTranscoding_until_await sid st)) j
     = (if j = sid
        then (case map_of (sessions st) sid of
                None \<Rightarrow> None
              | Some s \<Rightarrow>
                  if process s = None then None
                  else Some (s\<lparr> isActive := False,
                        consumers :=
                          map_PerKind (map_option (\<lambda>c. c\<lparr>consumerClosed := True\<rparr>)) (consumers s),
                        plainTransports :=
                          map_PerKind (map_option (\<lambda>t. t\<lparr>transportClosed := True\<rparr>)) (plainTransports s),
                        rtpSockets :=
                          map_PerKind (map_option (\<lambda>s. s\<lparr>socketClosed := True\<rparr>)) (rtpSockets s),
                        process := map_option signalProcess (process s) \<rparr>))
        else map_of (sessions st) j)"
  by (simp add: stopTranscoding_until_await_def map_of_update map_of_delete Let_def
      split: option.splits)

lemma after_await_sessions:
  "map_of (sessions (stopTranscoding_after_await sid st)) j
     = (if j = sid then None else map_of (sessions st) j)"
  by (simp add: stopTranscoding_after_await_def map_of_delete)








subsection \<open>The outcomes of the try block\<close>

text \<open>
  Either the block throws before it has changed the state (duplicate id, directory,
  no producer), or it has reserved the ports and stored a session under the id, whatever
  happens afterwards.
\<close>

lemma allocate_frame:
  "config (snd (allocateRtpPorts vp ap st)) = config st"
  "sessions (snd (allocateRtpPorts vp ap st)) = sessions st"
  by (simp_all add: allocateRtpPorts_def Let_def split_def getAvailablePort_frame)

lemma launch_result:
  "\<exists>r s'. launch env sid session pl (st2\<lparr>sessions := AList.update sid session (sessions st2)\<rparr>)
            = (r, st2\<lparr>sessions := AList.update sid s' (sessions st2)\<rparr>)
          \<and> rtpPorts s' = rtpPorts session \<and> producers s' = producers session"
proof (cases "startFFmpegProcess (config st2) env session pl")
  case (Inl e)
  then show ?thesis
    by (auto simp: launch_def)
next
  case (Inr ffmpegProcess)
  define s1 where "s1 = setupRtpReceiversWithForwarding (session\<lparr>process := Some ffmpegProcess\<rparr>)"
  obtain eo s2 where c: "connectProducersToRtp env s1 = (eo, s2)"
    by (cases "connectProducersToRtp env s1")
  have "keeps (session\<lparr>process := Some ffmpegProcess\<rparr>) s1"
    unfolding s1_def by (rule keeps_setup)
  moreover have "keeps s1 s2"
    using keeps_connect [of s1 env] c by simp
  ultimately have "keeps (session\<lparr>process := Some ffmpegProcess\<rparr>) s2"
    by (rule keeps_trans)
  then have hold2: "rtpPorts s2 = rtpPorts session" "producers s2 = producers session"
    by (simp_all add: keeps_def)
  show ?thesis
    using Inr c hold2 by (cases eo) (auto simp: launch_def s1_def)
qed

lemma try_cases:
  obtains (rejected) e where "startTranscoding_try env sid prods st = (Inl e, st)"
      "map_of (sessions st) sid \<noteq> None \<or> mkdirFails env
         \<or> (find (\<lambda>p. kind p = Video) prods = None \<and> find (\<lambda>p. kind p = Audio) prods = None)"
  | (launched) r s where "map_of (sessions st) sid = None"
      "find (\<lambda>p. kind p = Video) prods \<noteq> None \<or> find (\<lambda>p. kind p = Audio) prods \<noteq> None"
      "startTranscoding_try env sid prods st =
         (r, (snd (allocateRtpPorts (find (\<lambda>p. kind p = Video) prods)
                     (find (\<lambda>p. kind p = Audio) prods) st))
               \<lparr>sessions := AList.update sid s (sessions st)\<rparr>)"
      "rtpPorts s = fst (allocateRtpPorts (find (\<lambda>p. kind p = Video) prods)
                          (find (\<lambda>p. kind p = Audio) prods) st)"
      "producers s = \<lparr> video = find (\<lambda>p. kind p = Video) prods,
                        audio = find (\<lambda>p. kind p = Audio) prods \<rparr>"
proof (cases "map_of (sessions st) sid \<noteq> None \<or> mkdirFails env
         \<or> (find (\<lambda>p. kind p = Video) prods = None \<and> find (\<lambda>p. kind p = Audio) prods = None)")
  case True
  then have "\<exists>e. startTranscoding_try env sid prods st = (Inl e, st)"
    by (auto simp: startTranscoding_try_def Let_def)
  with True rejected show ?thesis by blast
next
  case False
  let ?vp = "find (\<lambda>p. kind p = Video) prods" and ?ap = "find (\<lambda>p. kind p = Audio) prods"
  let ?st2 = "snd (allocateRtpPorts ?vp ?ap st)"
  let ?session = "newSession env sid (path_join [outputDir (config st), sid])
      (fst (allocateRtpPorts ?vp ?ap st)) \<lparr> video = ?vp, audio = ?ap \<rparr>"
  let ?pl = "path_join [path_join [outputDir (config st), sid], ''playlist.m3u8'']"
  have unfold: "startTranscoding_try env sid prods st =
      launch env sid ?session ?pl (?st2\<lparr>sessions := AList.update sid ?session (sessions ?st2)\<rparr>)"
    using False by (auto simp: startTranscoding_try_def Let_def split_def)
  obtain r s' where res: "launch env sid ?session ?pl
        (?st2\<lparr>sessions := AList.update sid ?session (sessions ?st2)\<rparr>)
      = (r, ?st2\<lparr>sessions := AList.update sid s' (sessions ?st2)\<rparr>)"
    and hold: "rtpPorts s' = rtpPorts ?session" "producers s' = producers ?session"
    using launch_result [of env sid ?session ?pl ?st2] by blast
  have "startTranscoding_try env sid prods st = (r, ?st2\<lparr>sessions := AList.update sid s' (sessions st)\<rparr>)"
    using unfold res by (simp add: allocate_frame)
  moreover have "rtpPorts s' = fst (allocateRtpPorts ?vp ?ap st)"
    "producers s' = \<lparr> video = ?vp, audio = ?ap \<rparr>"
    using hold by (simp_all add: newSession_def)
  ultimately show ?thesis
    using False launched [of r s'] by blast
qed

subsection \<open>The port invariant is maintained\<close>


lemma getAvailablePort_facts:
  "fst (getAvailablePort st) \<notin> set (usedPorts st)"
  "baseRtpPort (config st) \<le> fst (getAvailablePort st)"
  "even (fst (getAvailablePort st)) = even (baseRtpPort (config st))"
  "fst (getAvailablePort st) \<in> set (usedPorts (snd (getAvailablePort st)))"
  "fst (getAvailablePort st) + 1 \<in> set (usedPorts (snd (getAvailablePort st)))"
  "set (usedPorts st) \<subseteq> set (usedPorts (snd (getAvailablePort st)))"
  by (auto simp: getAvailablePort_used, simp_all add: getAvailablePort_fst loop_unused loop_ge loop_parity)



lemma allocate_facts:
  fixes vp ap st
  defines "ports \<equiv> fst (allocateRtpPorts vp ap st)" and "st2 \<equiv> snd (allocateRtpPorts vp ap st)"
  shows "set (usedPorts st) \<subseteq> set (usedPorts st2)"
    and "vp = None \<Longrightarrow> video ports = 0"
    and "ap = None \<Longrightarrow> audio ports = 0"
    and "vp \<noteq> None \<Longrightarrow> video ports \<notin> set (usedPorts st) \<and> baseRtpPort (config st) \<le> video ports
           \<and> even (video ports) = even (baseRtpPort (config st))
           \<and> video ports \<in> set (usedPorts st2) \<and> video ports + 1 \<in> set (usedPorts st2)"
    and "ap \<noteq> None \<Longrightarrow> audio ports \<notin> set (usedPorts st) \<and> baseRtpPort (config st) \<le> audio ports
           \<and> even (audio ports) = even (baseRtpPort (config st))
           \<and> audio ports \<in> set (usedPorts st2) \<and> audio ports + 1 \<in> set (usedPorts st2)"
    and "vp \<noteq> None \<Longrightarrow> ap \<noteq> None \<Longrightarrow> video ports \<noteq> audio ports"
proof -
  define stA where "stA = (if vp \<noteq> None then snd (getAvailablePort st) else st)"
  have ports: "video ports = (if vp \<noteq> None then fst (getAvailablePort st) else 0)"
    "audio ports = (if ap \<noteq> None then fst (getAvailablePort stA) else 0)"
    and st2: "st2 = (if ap \<noteq> None then snd (getAvailablePort stA) else stA)"
    by (simp_all add: ports_def st2_def allocateRtpPorts_def Let_def split_def stA_def)
  have cfgA: "config stA = config st" and subA: "set (usedPorts st) \<subseteq> set (usedPorts stA)"
    using getAvailablePort_facts(6) [of st] by (auto simp: stA_def getAvailablePort_frame)
  have subAB: "set (usedPorts stA) \<subseteq> set (usedPorts st2)"
    using getAvailablePort_facts(6) [of stA] by (auto simp: st2)
  show "set (usedPorts st) \<subseteq> set (usedPorts st2)"
    using subA subAB by blast
  show "vp = None \<Longrightarrow> video ports = 0" "ap = None \<Longrightarrow> audio ports = 0"
    by (simp_all add: ports)
  have vA: "video ports \<in> set (usedPorts stA) \<and> video ports + 1 \<in> set (usedPorts stA)" if "vp \<noteq> None"
    using that getAvailablePort_facts(4,5) [of st] by (simp add: ports stA_def)
  show "video ports \<notin> set (usedPorts st) \<and> baseRtpPort (config st) \<le> video ports
           \<and> even (video ports) = even (baseRtpPort (config st))
           \<and> video ports \<in> set (usedPorts st2) \<and> video ports + 1 \<in> set (usedPorts st2)"
    if "vp \<noteq> None"
    using that getAvailablePort_facts(1,2,3) [of st] vA subAB by (auto simp: ports)
  have aA: "audio ports \<notin> set (usedPorts stA)" if "ap \<noteq> None"
    using that getAvailablePort_facts(1) [of stA] by (simp add: ports)
  show "audio ports \<notin> set (usedPorts st) \<and> baseRtpPort (config st) \<le> audio ports
           \<and> even (audio ports) = even (baseRtpPort (config st))
           \<and> audio ports \<in> set (usedPorts st2) \<and> audio ports + 1 \<in> set (usedPorts st2)"
    if "ap \<noteq> None"
    using that getAvailablePort_facts(2,3,4,5) [of stA] aA subA cfgA by (auto simp: ports st2)
  show "video ports \<noteq> audio ports" if "vp \<noteq> None" "ap \<noteq> None"
    using vA [OF that(1)] aA [OF that(2)] by auto
qed








subsection \<open>Consequences of the invariant\<close>




subsection \<open>Sessions other than the one operated on\<close>

lemma start_frame:
  "j \<noteq> sid \<Longrightarrow> map_of (sessions (snd (startTranscoding env sid prods st))) j = map_of (sessions st) j"
  "config (snd (startTranscoding env sid prods st)) = config st"
proof -
  have "(j \<noteq> sid \<longrightarrow> map_of (sessions (snd (startTranscoding env sid prods st))) j = map_of (sessions st) j)
      \<and> config (snd (startTranscoding env sid prods st)) = config st"
  proof (cases rule: try_cases [of env sid prods st])
    case (rejected e)
    then show ?thesis by (simp add: startTranscoding_def stop_sessions stop_config)
  next
    case (launched r s)
    then show ?thesis
      by (cases r) (simp_all add: startTranscoding_def stop_sessions stop_config map_of_update allocate_frame)
  qed
  then show "j \<noteq> sid \<Longrightarrow> map_of (sessions (snd (startTranscoding env sid prods st))) j = map_of (sessions st) j"
    "config (snd (startTranscoding env sid prods st)) = config st" by simp_all
qed

lemma start_duplicate:
  assumes "map_of (sessions st) sid \<noteq> None"
  shows "startTranscoding env sid prods st = (Inl (SessionExists sid), fst (stopTranscoding env sid st))"
  using assms by (simp add: startTranscoding_def startTranscoding_try_def)

lemma cleanup_sessions:
  "map_of (sessions (fold (\<lambda>sid s. fst (stopTranscoding env sid s)) ids st)) i = Some x
     \<Longrightarrow> map_of (sessions st) i = Some x"
proof (induction ids arbitrary: st)
  case Nil
  then show ?case by simp
next
  case (Cons a ids)
  then have "map_of (sessions (fst (stopTranscoding env a st))) i = Some x" by simp
  then show ?case by (simp add: stop_sessions split: if_splits)
qed

lemma recover_onSession:
  "snd (recoverSession env sid st) = onSession sid (\<lambda>x. snd (recoverSession_try (config st) env x)) st"
  by (simp add: recoverSession_def onSession_def split: prod.splits option.splits)

lemma onSession_keeps:
  assumes f: "\<And>x. keeps x (f x)" and before: "map_of (sessions st) i = Some s"
    and after: "map_of (sessions (onSession sid f st)) i = Some s'"
  shows "keeps s s'"
proof (cases "i = sid")
  case True
  then have "s' = f s" using before after by (simp add: onSession_sessions)
  then show ?thesis using f by simp
next
  case False
  then have "s' = s" using before after by (simp add: onSession_sessions)
  then show ?thesis by (simp add: keeps_refl)
qed

lemma step_keeps:
  assumes before: "map_of (sessions st) i = Some s" and after: "map_of (sessions (step e st)) i = Some s'"
  shows "keeps s s'"
proof (cases e)
  case (Start env sid prods)
  show ?thesis
  proof (cases "i = sid")
    case True
    then have "map_of (sessions (step e st)) i = None"
      using before by (simp add: Start start_duplicate stop_sessions)
    with after show ?thesis by simp
  next
    case False
    then have "s' = s" using before after by (simp add: Start start_frame)
    then show ?thesis by (simp add: keeps_refl)
  qed
next
  case (Stop env sid)
  have "map_of (sessions (fst (stopTranscoding env sid st))) i = Some s'"
    using after by (simp add: Stop)
  then have "map_of (sessions st) i = Some s'"
    by (simp add: stop_sessions split: if_splits)
  with before show ?thesis by (simp add: keeps_refl)
next
  case (StopUntilAwait sid)
  have after': "map_of (sessions (stopTranscoding_until_await sid st)) i = Some s'"
    using after by (simp add: StopUntilAwait)
  show ?thesis
  proof (cases "i = sid")
    case True
    with before after' show ?thesis
      by (auto simp: until_await_sessions keeps_def split: if_splits)
  next
    case False
    with before after' have "s' = s" by (simp add: until_await_sessions)
    then show ?thesis by (simp add: keeps_refl)
  qed
next
  case (StopAfterAwait sid)
  have "map_of (sessions (stopTranscoding_after_await sid st)) i = Some s'"
    using after by (simp add: StopAfterAwait)
  then have "map_of (sessions st) i = Some s'"
    by (simp add: after_await_sessions split: if_splits)
  with before show ?thesis by (simp add: keeps_refl)
next
  case (Cleanup env)
  have "map_of (sessions (fold (\<lambda>sid s. fst (stopTranscoding env sid s)) (map fst (sessions st)) st)) i
      = Some s'"
    using after by (simp add: Cleanup cleanup_def)
  then have "map_of (sessions st) i = Some s'"
    by (rule cleanup_sessions)
  with before show ?thesis by (simp add: keeps_refl)
next
  case (RtpMessage sid k pkt now)
  have "map_of (sessions (onSession sid (deliver k pkt now) st)) i = Some s'"
    using after by (simp add: RtpMessage)
  then show ?thesis
    by (rule onSession_keeps [OF keeps_deliver before])
next
  case (ProcessExit env sid code sig)
  have "map_of (sessions (onSession sid (processExit (config st) env code sig) st)) i = Some s'"
    using after by (simp add: ProcessExit)
  then show ?thesis
    by (rule onSession_keeps [OF keeps_processExit before])
next
  case (SocketError env sid k)
  have "map_of (sessions (onSession sid (attemptSocketRecovery env k) st)) i = Some s'"
    using after by (simp add: SocketError)
  then show ?thesis
    by (rule onSession_keeps [OF keeps_attemptSocketRecovery before])
next
  case (Recover env sid)
  have "map_of (sessions (onSession sid (\<lambda>x. snd (recoverSession_try (config st) env x)) st)) i = Some s'"
    using after by (simp add: Recover recover_onSession)
  then show ?thesis
    by (rule onSession_keeps [OF keeps_recoverSession_try before])
next
  case (StderrProgress sid now)
  have "map_of (sessions (onSession sid (onStderrProgress now) st)) i = Some s'"
    using after by (simp add: StderrProgress)
  then show ?thesis
    by (rule onSession_keeps [OF keeps_onStderrProgress before])
qed

lemma trackedAlong_head: "trackedAlong i evs st \<Longrightarrow> map_of (sessions st) i \<noteq> None"
  by (cases evs) simp_all

lemma run_keeps:
  "trackedAlong i evs st \<Longrightarrow> map_of (sessions st) i = Some s
     \<Longrightarrow> map_of (sessions (run evs st)) i = Some s' \<Longrightarrow> keeps s s'"
proof (induction evs arbitrary: st s)
  case Nil
  then show ?case by (simp add: run_def keeps_refl)
next
  case (Cons e es)
  from Cons.prems(1) have tail: "trackedAlong i es (step e st)" by simp
  then obtain s1 where s1: "map_of (sessions (step e st)) i = Some s1"
    using trackedAlong_head by blast
  have "keeps s s1" by (rule step_keeps [OF Cons.prems(2) s1])
  moreover have "keeps s1 s'"
    using Cons.IH [OF tail s1] Cons.prems(3) by (simp add: run_def)
  ultimately show ?case by (rule keeps_trans)
qed

lemma setup_listener:
  "sel k (producers s) \<noteq> None \<Longrightarrow> sel k (rtpPorts s) \<noteq> 0 \<Longrightarrow> process s \<noteq> None
     \<Longrightarrow> map_option onMessage (sel k (rtpSockets (setupRtpReceiversWithForwarding s))) = Some StatsAndForward"
  by (cases k) (auto simp: setupRtpReceiversWithForwarding_def setupKind_def sel_def upd_def)

subsection \<open>Evaluating the examples\<close>

text \<open>
  When no datagram arrives, the synchronizer returns the session as it was.
\<close>

lemma quiet_poll:
  "\<exists>r. waitForRtpFlow_poll (\<lambda>k. []) t i k s = (Inr r, s)"
proof (induction "\<lambda>k::nat. [] :: (media_kind \<times> nat list \<times> nat) list" t i k s
    rule: waitForRtpFlow_poll.induct)
  case (1 timeoutMs initialPacketCount k session)
  then show ?case
    by (subst waitForRtpFlow_poll.simps) (auto simp: deliverAll_def)
qed

lemma quiet_sync:
  assumes "arrivals env = (\<lambda>k. [])"
  shows "synchronizeStreams env s = (None, s)"
proof -
  have "thrown (waitForRtpFlow env s t) = (None, s)" for t
    using quiet_poll [of t "packetsReceived (stats s)" 1 s] assms
    by (auto simp: waitForRtpFlow_def thrown_def)
  then show ?thesis by (simp add: synchronizeStreams_def)
qed

lemmas eval_defs = startTranscoding_def startTranscoding_try_def stopTranscoding_def
  allocateRtpPorts_def launch_def
  getAvailablePort_def set_add_def set_delete_def createHLSTranscoder_def
  newSession_def startFFmpegProcess_def connectProducersToRtp_def connectKind_def
  createPlainTransportForProducer_def setupRtpReceiversWithForwarding_def setupKind_def
  sel_def upd_def Let_def

lemma exampleEnv_simps:
  "dateNow exampleEnv = 1000" "mkdirFails exampleEnv = False" "spawned exampleEnv = Some 4242"
  "transportFails exampleEnv = \<lparr> video = False, audio = False \<rparr>"
  "arrivals exampleEnv = (\<lambda>k. [])" "exitsInGrace exampleEnv = True"
  "bindOk exampleEnv = \<lparr> video = True, audio = True \<rparr>" "writeFails exampleEnv = False"
  by (simp_all add: exampleEnv_def)

lemma source_simps:
  "kind videoSource = Video" "kind audioSource = Audio" "router videoSource" "router audioSource"
  "producerId videoSource = ''pv''" "producerId audioSource = ''pa''"
  by (simp_all add: videoSource_def audioSource_def)

lemma default_simps:
  "outputDir DEFAULT_HLS_CONFIG = ''./hls-output''" "baseRtpPort DEFAULT_HLS_CONFIG = 20000"
  by (simp_all add: DEFAULT_HLS_CONFIG_def)

lemma start_example:
  "startTranscoding exampleEnv ''s1'' [videoSource, audioSource]
     (createHLSTranscoder DEFAULT_HLS_CONFIG)
   = (Inr (path_join [path_join [''./hls-output'', ''s1''], ''playlist.m3u8'']), exampleState)"
  by (simp add: eval_defs exampleEnv_simps source_simps default_simps quiet_sync
      getAvailablePort_loop.simps exampleState_def exampleSession_def exampleProcess_def)

lemma example_lookup: "map_of (sessions exampleState) ''s1'' = Some exampleSession"
  by (simp add: exampleState_def)

lemma ten_delivered:
  "stats (deliverAll (tenPackets 1) exampleSession)
     = \<lparr> packetsReceived = 10, bytesReceived = 20, lastPacketTime = 1095 \<rparr>"
  by (simp add: tenPackets_def deliverAll_def deliver_def onRtpMessage_def forwardToStdin_def
      sel_def exampleSession_def exampleProcess_def)

lemma ten_delivered_Suc:
  "stats (deliverAll (tenPackets (Suc 0)) exampleSession)
     = \<lparr> packetsReceived = 10, bytesReceived = 20, lastPacketTime = 1095 \<rparr>"
  using ten_delivered by simp

text \<open>
  Once the datagrams have stopped with at most 10 counted, the polling ends at the first
  poll later than the timeout, through the timeout branch.
\<close>

lemma poll_quiet_timeout:
  assumes "\<forall>j\<ge>k. arr j = []" and "\<not> int (packetsReceived (stats s)) - int i > 10"
  shows "\<exists>n\<ge>k. waitForRtpFlow_poll arr t i k s
            = (Inr (FlowTimeout (int (packetsReceived (stats s)) - int i) (100 * n)), s)
          \<and> t < 100 * n \<and> (n = k \<or> 100 * (n - 1) \<le> t)"
  using assms
proof (induction arr t i k s rule: waitForRtpFlow_poll.induct)
  case (1 arr timeoutMs initialPacketCount k session)
  have quiet: "deliverAll (arr k) session = session"
    using "1.prems"(1) by (simp add: deliverAll_def)
  show ?case
  proof (cases "100 * k > timeoutMs")
    case True
    then have "waitForRtpFlow_poll arr timeoutMs initialPacketCount k session
        = (Inr (FlowTimeout (int (packetsReceived (stats session)) - int initialPacketCount) (100 * k)),
           session)"
      using "1.prems"(2) quiet by (subst waitForRtpFlow_poll.simps) simp
    with True show ?thesis by blast
  next
    case False
    have step: "waitForRtpFlow_poll arr timeoutMs initialPacketCount k session
        = waitForRtpFlow_poll arr timeoutMs initialPacketCount (k + 1) session"
      using "1.prems"(2) quiet False by (subst waitForRtpFlow_poll.simps) simp
    have "\<exists>n\<ge>k + 1. waitForRtpFlow_poll arr timeoutMs initialPacketCount (k + 1) session
            = (Inr (FlowTimeout (int (packetsReceived (stats session)) - int initialPacketCount) (100 * n)),
               session)
          \<and> timeoutMs < 100 * n \<and> (n = k + 1 \<or> 100 * (n - 1) \<le> timeoutMs)"
      using "1.IH" [of ] "1.prems" False quiet by simp
    then obtain n where n: "k + 1 \<le> n"
      "waitForRtpFlow_poll arr timeoutMs initialPacketCount (k + 1) session
            = (Inr (FlowTimeout (int (packetsReceived (stats session)) - int initialPacketCount) (100 * n)),
               session)" "timeoutMs < 100 * n" "n = k + 1 \<or> 100 * (n - 1) \<le> timeoutMs"
      by blast
    have "n = k \<or> 100 * (n - 1) \<le> timeoutMs"
      using n(4) False by auto
    with n step show ?thesis
      by (intro exI [of _ n]) simp
  qed
qed

lemma start_success:
  assumes "startTranscoding env sid prods st = (Inr path, st')"
  shows "\<exists>s. map_of (sessions st') sid = Some s
            \<and> rtpPorts s = fst (allocateRtpPorts (find (\<lambda>p. kind p = Video) prods)
                                  (find (\<lambda>p. kind p = Audio) prods) st)
            \<and> producers s = \<lparr> video = find (\<lambda>p. kind p = Video) prods,
                               audio = find (\<lambda>p. kind p = Audio) prods \<rparr>
            \<and> (find (\<lambda>p. kind p = Video) prods \<noteq> None \<or> find (\<lambda>p. kind p = Audio) prods \<noteq> None)"
proof (cases rule: try_cases [of env sid prods st])
  case (rejected e)
  with assms show ?thesis by (simp add: startTranscoding_def)
next
  case (launched r s)
  show ?thesis
  proof (cases r)
    case (Inl e)
    with launched assms show ?thesis by (simp add: startTranscoding_def)
  next
    case (Inr p)
    with launched assms have "st' = (snd (allocateRtpPorts (find (\<lambda>p. kind p = Video) prods)
                     (find (\<lambda>p. kind p = Audio) prods) st))
               \<lparr>sessions := AList.update sid s (sessions st)\<rparr>"
      by (simp add: startTranscoding_def)
    then have "map_of (sessions st') sid = Some s" by (simp add: map_of_update)
    with launched show ?thesis by blast
  qed
qed

lemma start_example2:
  "startTranscoding exampleEnv2 ''s2'' [videoSource] exampleState
   = (Inr (path_join [path_join [''./hls-output'', ''s2''], ''playlist.m3u8'']), exampleState2)"
  by (simp add: eval_defs exampleEnv2_def exampleEnv_simps source_simps default_simps quiet_sync
      getAvailablePort_loop.simps exampleState_def exampleState2_def exampleSession2_def)


lemmas path_defs = path_join_def path_normalize_def path_dirname_def Let_def

text \<open>
  The paths and the master playlist of the adaptive example.
\<close>

lemma tier_paths:
  "path_join [path_join [''./hls-output'', ''live_720p''], ''playlist.m3u8'']
     = ''hls-output/live_720p/playlist.m3u8''"
  "path_join [path_join [''./hls-output'', ''live_480p''], ''playlist.m3u8'']
     = ''hls-output/live_480p/playlist.m3u8''"
  "path_join [path_join [''./hls-output'', ''live_360p''], ''playlist.m3u8'']
     = ''hls-output/live_360p/playlist.m3u8''"
  "path_join [''./hls-output'', ''live'', ''master.m3u8''] = ''hls-output/live/master.m3u8''"
  by (simp_all add: path_defs)

lemma resolved_paths:
  "resolveUri ''hls-output/live/master.m3u8'' ''720p/playlist.m3u8''
     = ''hls-output/live/720p/playlist.m3u8''"
  "resolveUri ''hls-output/live/master.m3u8'' ''480p/playlist.m3u8''
     = ''hls-output/live/480p/playlist.m3u8''"
  "resolveUri ''hls-output/live/master.m3u8'' ''360p/playlist.m3u8''
     = ''hls-output/live/360p/playlist.m3u8''"
  by (simp_all add: resolveUri_def path_defs)

lemma master_content:
  "snd (createMasterPlaylist st sid qualities urls) = exampleMaster"
  by (simp add: createMasterPlaylist_def qualities_def masterEntry_def parseInt_def Number_def
      digits_value_def digit_val_def showNumber_def toString.simps digit_char_def exampleMaster_def
      Let_def)

lemma master_uris:
  "uriLines exampleMaster = [''720p/playlist.m3u8'', ''480p/playlist.m3u8'', ''360p/playlist.m3u8'']"
  by (simp add: uriLines_def exampleMaster_def newline_def dquote_def)

lemma start_fresh_both:
  "fst (startTranscoding exampleEnv sid [videoSource, audioSource] (createHLSTranscoder cfg))
     = Inr (path_join [path_join [outputDir cfg, sid], ''playlist.m3u8''])"
  "sessionIds (snd (startTranscoding exampleEnv sid [videoSource, audioSource]
                      (createHLSTranscoder cfg))) = [sid]"
  "usedPorts (snd (startTranscoding exampleEnv sid [videoSource, audioSource]
                     (createHLSTranscoder cfg)))
     = [baseRtpPort cfg, baseRtpPort cfg + 1, baseRtpPort cfg + 2, baseRtpPort cfg + 3]"
  by (simp_all add: eval_defs exampleEnv_simps source_simps quiet_sync getAvailablePort_loop.simps
      sessionIds_def)

lemma adaptive_example:
  "adaptiveLoop exampleEnvs DEFAULT_HLS_CONFIG ''live'' [videoSource, audioSource] 0 qualities
     = (Inr [''hls-output/live_720p/playlist.m3u8'', ''hls-output/live_480p/playlist.m3u8'',
             ''hls-output/live_360p/playlist.m3u8''],
        [snd (startTranscoding exampleEnv ''live_720p'' [videoSource, audioSource]
                (createHLSTranscoder (DEFAULT_HLS_CONFIG\<lparr>resolution := ''1280x720'',
                   videoBitrate := ''2500k'', baseRtpPort := 20000\<rparr>))),
         snd (startTranscoding exampleEnv ''live_480p'' [videoSource, audioSource]
                (createHLSTranscoder (DEFAULT_HLS_CONFIG\<lparr>resolution := ''854x480'',
                   videoBitrate := ''1200k'', baseRtpPort := 20100\<rparr>))),
         snd (startTranscoding exampleEnv ''live_360p'' [videoSource, audioSource]
                (createHLSTranscoder (DEFAULT_HLS_CONFIG\<lparr>resolution := ''640x360'',
                   videoBitrate := ''800k'', baseRtpPort := 20200\<rparr>)))])"
  by (simp add: qualities_def exampleEnvs_def exampleEnv_simps split_def start_fresh_both(1)
      default_simps tier_paths)

subsection \<open>A stop that waits\<close>


subsection \<open>A start without producers\<close>

text \<open>
  A start whose producer list has neither a video nor an audio producer throws, adds no
  port and leaves no session under the id; on an id that was not tracked it leaves the
  state as it was.
\<close>

lemma no_producers_rejected:
  assumes "find (\<lambda>p. kind p = Video) prods = None" and "find (\<lambda>p. kind p = Audio) prods = None"
  shows "(\<exists>e. fst (startTranscoding env sid prods st) = Inl e)
       \<and> set (usedPorts (snd (startTranscoding env sid prods st))) \<subseteq> set (usedPorts st)
       \<and> map_of (sessions (snd (startTranscoding env sid prods st))) sid = None
       \<and> (map_of (sessions st) sid = None \<longrightarrow> snd (startTranscoding env sid prods st) = st)"
proof (cases rule: try_cases [of env sid prods st])
  case (rejected e)
  then have eq: "startTranscoding env sid prods st = (Inl e, fst (stopTranscoding env sid st))"
    by (simp add: startTranscoding_def)
  have "set (usedPorts (fst (stopTranscoding env sid st))) \<subseteq> set (usedPorts st)"
    by (auto simp: stop_used split: option.splits)
  then show ?thesis
    by (simp add: eq stop_sessions stop_unknown)
next
  case (launched r s)
  with assms show ?thesis by simp
qed

section \<open>The claims\<close>

subsection \<open>Duplicate session ids\<close>

text \<open>
  Claim C1 says that \<^verbatim>\<open>startTranscoding\<close> on an id that is already tracked is rejected
  without side effects. The call is rejected, but the \<^verbatim>\<open>throw\<close> sits inside the
  \<^verbatim>\<open>try\<close> block whose \<^verbatim>\<open>catch\<close> calls \<^verbatim>\<open>stopTranscoding(sessionId)\<close>: the session
  that already runs under the id is torn down. After session s1 has been started with
  both kinds (ports 20000 to 20003 reserved), a second start of s1 returns the
  duplicate-session error and leaves no session and no reserved port.
\<close>

theorem duplicate_start_tears_down:
  "snd (startTranscoding exampleEnv ''s1'' [videoSource, audioSource]
          (createHLSTranscoder DEFAULT_HLS_CONFIG)) = exampleState
   \<and> map_of (sessions exampleState) ''s1'' = Some exampleSession
   \<and> usedPorts exampleState = [20000, 20001, 20002, 20003]
   \<and> startTranscoding exampleEnv ''s1'' [videoSource, audioSource] exampleState
       = (Inl (SessionExists ''s1''), exampleState\<lparr>sessions := [], usedPorts := []\<rparr>)"
proof -
  have "startTranscoding exampleEnv ''s1'' [videoSource, audioSource] exampleState
       = (Inl (SessionExists ''s1''), fst (stopTranscoding exampleEnv ''s1'' exampleState))"
    by (rule start_duplicate) (simp add: example_lookup)
  moreover have "fst (stopTranscoding exampleEnv ''s1'' exampleState)
      = exampleState\<lparr>sessions := [], usedPorts := []\<rparr>"
    by (simp add: stopTranscoding_def example_lookup)
       (simp add: exampleState_def exampleSession_def set_delete_def)
  ultimately show ?thesis
    by (simp add: start_example example_lookup) (simp add: exampleState_def)
qed

subsection \<open>Restart after an unexpected exit\<close>

text \<open>
  Claim C2 says that a non-zero exit that the manager did not signal, on a session still
  marked active, re-spawns the process after 5 s. The exit listener assigns
  \<^verbatim>\<open>session.isActive = false\<close> before it tests \<^verbatim>\<open>session.isActive\<close>, so the timer is
  never set: when the process of the active session s1 exits with code 1 and no signal,
  the listener sets no timer, and the session stays tracked, inactive, with the handle of
  the exited process (pid 4242), although a spawn would have succeeded (pid 4243).
\<close>

theorem exit_handler_never_restarts:
  "isActive exampleSession
   \<and> map_option pid (process exampleSession) = Some 4242
   \<and> onExit (Some 1) None exampleSession = (exampleSession\<lparr>isActive := False\<rparr>, None)
   \<and> map_of (sessions (step (ProcessExit (exampleEnv\<lparr>spawned := Some 4243\<rparr>) ''s1'' (Some 1) None)
                exampleState)) ''s1''
       = Some (exampleSession\<lparr>process := Some (exampleProcess\<lparr>exited := True, stdinDestroyed := True\<rparr>),
                               isActive := False\<rparr>)"
  by (simp add: onSession_sessions example_lookup processExit_eq)
     (simp add: exampleSession_def exampleProcess_def onExit_def)

subsection \<open>Reserved ports\<close>




text \<open>
  Claim C4 says that every reservation returns the lowest unused even port at or above
  the configured base. With the odd base 20001 and an empty pool the reservation returns
  20001.
\<close>

theorem port_reservation_counterexample:
  "fst (getAvailablePort (createHLSTranscoder oddBaseConfig)) = 20001
   \<and> \<not> even (fst (getAvailablePort (createHLSTranscoder oddBaseConfig)))"
  by (simp add: getAvailablePort_def createHLSTranscoder_def oddBaseConfig_def
      getAvailablePort_loop.simps)

text \<open>
  Claim C4, amended: when the configured base is even and the reservation stays within
  the range of exact numbers (the base plus twice the number of used ports plus 4 is at
  most 9007199254740991), the reservation returns the lowest unused even port P at or
  above the base and marks P and P + 1 as used, both at most 9007199254740991; starting
  session s1 with both media kinds at base 20000 on a new pool gives the video pair
  (20000, 20001) and the audio pair (20002, 20003), and the ports of a session s2 started
  next are at or above 20004.
\<close>

theorem port_reservation_lowest_even:
  "(even (baseRtpPort (config st)) \<and> exactFor 1 st \<longrightarrow>
      even (fst (getAvailablePort st))
      \<and> baseRtpPort (config st) \<le> fst (getAvailablePort st)
      \<and> fst (getAvailablePort st) \<notin> set (usedPorts st)
      \<and> (\<forall>q. even q \<and> baseRtpPort (config st) \<le> q \<and> q < fst (getAvailablePort st)
             \<longrightarrow> q \<in> set (usedPorts st))
      \<and> set (usedPorts (snd (getAvailablePort st)))
          = insert (fst (getAvailablePort st))
              (insert (fst (getAvailablePort st) + 1) (set (usedPorts st)))
      \<and> fst (getAvailablePort st) + 1 \<le> MAX_SAFE_INTEGER)
   \<and> snd (startTranscoding exampleEnv ''s1'' [videoSource, audioSource]
            (createHLSTranscoder DEFAULT_HLS_CONFIG)) = exampleState
   \<and> map_option rtpPorts (map_of (sessions exampleState) ''s1'')
       = Some \<lparr> video = 20000, audio = 20002 \<rparr>
   \<and> usedPorts exampleState = [20000, 20001, 20002, 20003]
   \<and> (startTranscoding env ''s2'' prods exampleState = (Inr path, st') \<longrightarrow>
        (\<exists>s. map_of (sessions st') ''s2'' = Some s
           \<and> (video (producers s) \<noteq> None \<or> audio (producers s) \<noteq> None)
           \<and> (video (producers s) \<noteq> None \<longrightarrow> 20004 \<le> video (rtpPorts s))
           \<and> (audio (producers s) \<noteq> None \<longrightarrow> 20004 \<le> audio (rtpPorts s))))"
proof (intro conjI impI)
  assume "even (baseRtpPort (config st)) \<and> exactFor 1 st"
  then have ev: "even (baseRtpPort (config st))" and ex: "exactFor 1 st"
    by simp_all
  show "even (fst (getAvailablePort st))"
    using ev by (simp add: getAvailablePort_facts(3))
  show "\<forall>q. even q \<and> baseRtpPort (config st) \<le> q \<and> q < fst (getAvailablePort st)
             \<longrightarrow> q \<in> set (usedPorts st)"
    using ev loop_lowest [of "baseRtpPort (config st)" _ "usedPorts st"]
    by (simp add: getAvailablePort_fst)
  show "fst (getAvailablePort st) + 1 \<le> MAX_SAFE_INTEGER"
    using ex getAvailablePort_le [of st] by (simp add: exactFor_def)
next
  show "baseRtpPort (config st) \<le> fst (getAvailablePort st)"
    by (rule getAvailablePort_facts(2))
  show "fst (getAvailablePort st) \<notin> set (usedPorts st)"
    by (rule getAvailablePort_facts(1))
  show "set (usedPorts (snd (getAvailablePort st)))
          = insert (fst (getAvailablePort st))
              (insert (fst (getAvailablePort st) + 1) (set (usedPorts st)))"
    by (rule getAvailablePort_used)
  show "snd (startTranscoding exampleEnv ''s1'' [videoSource, audioSource]
            (createHLSTranscoder DEFAULT_HLS_CONFIG)) = exampleState"
    by (simp add: start_example)
  show "map_option rtpPorts (map_of (sessions exampleState) ''s1'')
       = Some \<lparr> video = 20000, audio = 20002 \<rparr>"
    by (simp add: example_lookup) (simp add: exampleSession_def)
  show "usedPorts exampleState = [20000, 20001, 20002, 20003]"
    by (simp add: exampleState_def)
next
  assume ok: "startTranscoding env ''s2'' prods exampleState = (Inr path, st')"
  let ?vp = "find (\<lambda>p. kind p = Video) prods" and ?ap = "find (\<lambda>p. kind p = Audio) prods"
  obtain s where s: "map_of (sessions st') ''s2'' = Some s"
    "rtpPorts s = fst (allocateRtpPorts ?vp ?ap exampleState)"
    "producers s = \<lparr> video = ?vp, audio = ?ap \<rparr>" "?vp \<noteq> None \<or> ?ap \<noteq> None"
    using start_success [OF ok] by blast
  note al = allocate_facts [where vp = "?vp" and ap = "?ap" and st = exampleState, folded s(2)]
  have used: "set (usedPorts exampleState) = {20000, 20001, 20002, 20003}"
    "baseRtpPort (config exampleState) = 20000"
    by (simp_all add: exampleState_def default_simps)
  have v: "20004 \<le> video (rtpPorts s)" if "?vp \<noteq> None"
    using al(4) [OF that] used by auto
  have a: "20004 \<le> audio (rtpPorts s)" if "?ap \<noteq> None"
    using al(5) [OF that] used by auto
  show "\<exists>s. map_of (sessions st') ''s2'' = Some s
           \<and> (video (producers s) \<noteq> None \<or> audio (producers s) \<noteq> None)
           \<and> (video (producers s) \<noteq> None \<longrightarrow> 20004 \<le> video (rtpPorts s))
           \<and> (audio (producers s) \<noteq> None \<longrightarrow> 20004 \<le> audio (rtpPorts s))"
    using s v a by (intro exI [of _ s]) simp
qed

theorem port_reservation_lowest_even_witness:
  "even (baseRtpPort (config exampleState)) \<and> exactFor 1 exampleState
   \<and> fst (getAvailablePort exampleState) = 20004
   \<and> even (20002::nat) \<and> baseRtpPort (config exampleState) \<le> 20002
   \<and> 20002 < fst (getAvailablePort exampleState)
   \<and> 20002 \<in> set (usedPorts exampleState)
   \<and> startTranscoding exampleEnv2 ''s2'' [videoSource] exampleState
       = (Inr (path_join [path_join [''./hls-output'', ''s2''], ''playlist.m3u8'']), exampleState2)
   \<and> map_of (sessions exampleState2) ''s2'' = Some exampleSession2
   \<and> video (producers exampleSession2) \<noteq> None
   \<and> 20004 \<le> video (rtpPorts exampleSession2)"
proof -
  have base: "even (baseRtpPort (config exampleState))"
    by (simp add: exampleState_def default_simps)
  have exact: "exactFor 1 exampleState"
    by (simp add: exactFor_def MAX_SAFE_INTEGER_def exampleState_def default_simps)
  have port: "fst (getAvailablePort exampleState) = 20004"
    by (simp add: getAvailablePort_def exampleState_def default_simps getAvailablePort_loop.simps)
  have s2: "map_of (sessions exampleState2) ''s2'' = Some exampleSession2"
    by (simp add: exampleState2_def)
  have present: "video (producers exampleSession2) \<noteq> None"
    by (simp add: exampleSession2_def)
  note claim = port_reservation_lowest_even [of exampleState exampleEnv2 "[videoSource]"
      "path_join [path_join [''./hls-output'', ''s2''], ''playlist.m3u8'']" exampleState2]
  from claim base exact port have low: "20002 \<in> set (usedPorts exampleState)"
    by (simp add: exampleState_def default_simps)
  from claim s2 present have high: "20004 \<le> video (rtpPorts exampleSession2)"
    by (simp add: start_example2)
  show ?thesis
    using base exact port low high s2 present
    by (simp add: start_example2) (simp add: exampleState_def default_simps)
qed

subsection \<open>Stopping a session\<close>



subsection \<open>The message listeners\<close>

text \<open>
  Claim C6 says that every socket that forwards packets updates the three stats fields
  and then forwards the bytes to the standard input of the process. The listener that
  \<^verbatim>\<open>attemptSocketRecovery\<close> puts on a replacement socket forwards the bytes and leaves
  the stats as they are; and the listener of \<^verbatim>\<open>setupRtpReceiversWithForwarding\<close> writes
  nothing when the standard input of the process is destroyed, as it is after the process
  has exited.
\<close>

theorem listener_counterexample:
  "sel Video (rtpSockets (attemptSocketRecovery exampleEnv Video exampleSession))
     = Some \<lparr> boundPort = 20000, onMessage = ForwardOnly, socketClosed = False \<rparr>
   \<and> stats (deliver Video [1, 2, 3] 5000 (attemptSocketRecovery exampleEnv Video exampleSession))
     = \<lparr> packetsReceived = 0, bytesReceived = 0, lastPacketTime = 0 \<rparr>
   \<and> map_option stdinData
       (process (deliver Video [1, 2, 3] 5000 (attemptSocketRecovery exampleEnv Video exampleSession)))
     = Some [[1, 2, 3]]
   \<and> map_option stdinData
       (process (deliver Audio [1, 2, 3] 5000
                  (processExit DEFAULT_HLS_CONFIG exampleEnv (Some 1) None exampleSession)))
     = Some []"
  by (simp add: processExit_eq attemptSocketRecovery_def deliver_def onRecoveredMessage_def
      onRtpMessage_def forwardToStdin_def sel_def upd_def exampleEnv_simps
      exampleSession_def exampleProcess_def)

text \<open>
  Claim C6, amended: for every datagram received on a socket whose listener is the one
  installed by \<^verbatim>\<open>setupRtpReceiversWithForwarding\<close> (video or audio), the listener
  increments \<^verbatim>\<open>packetsReceived\<close> by exactly 1, adds the length of the datagram to
  \<^verbatim>\<open>bytesReceived\<close>, sets \<^verbatim>\<open>lastPacketTime\<close> to the current time and, when the session has
  a process whose standard input is not destroyed, appends the bytes unchanged to what
  has been written to that input; otherwise it writes nothing.
\<close>

theorem rtp_listener_counts_and_forwards:
  assumes "sel k (rtpSockets session) = Some sock" and "onMessage sock = StatsAndForward"
  shows "packetsReceived (stats (deliver k rtpPacket now session)) = packetsReceived (stats session) + 1
       \<and> bytesReceived (stats (deliver k rtpPacket now session))
           = bytesReceived (stats session) + length rtpPacket
       \<and> lastPacketTime (stats (deliver k rtpPacket now session)) = now
       \<and> process (deliver k rtpPacket now session)
           = map_option (\<lambda>p. if stdinDestroyed p then p else p\<lparr>stdinData := stdinData p @ [rtpPacket]\<rparr>)
               (process session)"
  using assms by (simp add: deliver_def onRtpMessage_def forwardToStdin_def split: option.splits)

theorem rtp_listener_counts_and_forwards_witness:
  "sel Video (rtpSockets exampleSession)
     = Some \<lparr> boundPort = 20000, onMessage = StatsAndForward, socketClosed = False \<rparr>
   \<and> stats exampleSession = \<lparr> packetsReceived = 0, bytesReceived = 0, lastPacketTime = 0 \<rparr>
   \<and> stats (deliver Video [1, 2, 3] 5000 exampleSession)
       = \<lparr> packetsReceived = 1, bytesReceived = 3, lastPacketTime = 5000 \<rparr>
   \<and> map_option stdinData (process (deliver Video [1, 2, 3] 5000 exampleSession)) = Some [[1, 2, 3]]"
proof -
  have sock: "sel Video (rtpSockets exampleSession)
     = Some \<lparr> boundPort = 20000, onMessage = StatsAndForward, socketClosed = False \<rparr>"
    by (simp add: sel_def exampleSession_def)
  have before: "stats exampleSession = \<lparr> packetsReceived = 0, bytesReceived = 0, lastPacketTime = 0 \<rparr>"
    "process exampleSession = Some exampleProcess" "stdinData exampleProcess = []"
    "\<not> stdinDestroyed exampleProcess"
    by (simp_all add: exampleSession_def exampleProcess_def)
  show ?thesis
    using rtp_listener_counts_and_forwards [OF sock, of "[1, 2, 3]" 5000] sock before
    by (cases "stats (deliver Video [1, 2, 3] 5000 exampleSession)") simp
qed

subsection \<open>The synchronizer\<close>

text \<open>
  Claim C7 says that \<^verbatim>\<open>waitForRtpFlow\<close> always resolves and resolves early once at
  least 10 packets have arrived since the check began. The comment in the source says
  \<^verbatim>\<open>At least 10 packets received\<close>, the test is \<^verbatim>\<open>packetsReceived > 10\<close>: when exactly
  10 datagrams arrive on the video socket of session s1 before the first poll and none
  later, the wait with timeout 3000 does not end at the first poll (100 ms) but at the
  31st, as a timeout with 10 packets after 3100 ms.
\<close>

theorem ten_packets_wait_for_timeout:
  "fst (waitForRtpFlow (exampleEnv\<lparr>arrivals := tenPackets\<rparr>) exampleSession 3000)
     = Inr (FlowTimeout 10 3100)"
proof -
  let ?s1 = "deliverAll (tenPackets 1) exampleSession"
  have first: "waitForRtpFlow (exampleEnv\<lparr>arrivals := tenPackets\<rparr>) exampleSession 3000
      = waitForRtpFlow_poll tenPackets 3000 0 2 ?s1"
  proof -
    have init: "packetsReceived (stats exampleSession) = 0"
      by (simp add: exampleSession_def)
    have "waitForRtpFlow_poll tenPackets 3000 0 1 exampleSession
        = waitForRtpFlow_poll tenPackets 3000 0 (1 + 1) ?s1"
      by (subst waitForRtpFlow_poll.simps) (simp add: ten_delivered del: One_nat_def)
    then show ?thesis
      by (simp add: waitForRtpFlow_def init del: One_nat_def)
  qed
  have "\<forall>j\<ge>2. tenPackets j = []" by (simp add: tenPackets_def)
  moreover have "\<not> int (packetsReceived (stats ?s1)) - int 0 > 10" by (simp add: ten_delivered_Suc)
  ultimately obtain n where n: "2 \<le> n"
    "waitForRtpFlow_poll tenPackets 3000 0 2 ?s1
       = (Inr (FlowTimeout (int (packetsReceived (stats ?s1)) - int 0) (100 * n)), ?s1)"
    "3000 < 100 * n" "n = 2 \<or> 100 * (n - 1) \<le> 3000"
    using poll_quiet_timeout [of 2 tenPackets ?s1 0 3000] by blast
  from n(1,3,4) have "n = 31" by presburger
  with n(2) first show ?thesis by (simp add: ten_delivered_Suc)
qed

subsection \<open>The stats counters\<close>

text \<open>
  Claim C8: for every session and every sequence of events during which the session stays
  tracked, \<^verbatim>\<open>packetsReceived\<close> and \<^verbatim>\<open>bytesReceived\<close> at the end are at least what they
  were at the start.
\<close>

theorem stats_counters_monotone:
  assumes "trackedAlong i evs st" and "map_of (sessions st) i = Some s"
    and "map_of (sessions (run evs st)) i = Some s'"
  shows "packetsReceived (stats s) \<le> packetsReceived (stats s')
       \<and> bytesReceived (stats s) \<le> bytesReceived (stats s')"
  using run_keeps [OF assms] by (simp add: keeps_def)

theorem stats_counters_monotone_witness:
  "trackedAlong ''s1'' exampleEvents exampleState
   \<and> map_of (sessions exampleState) ''s1'' = Some exampleSession
   \<and> map_of (sessions (run exampleEvents exampleState)) ''s1'' = Some exampleSessionLater
   \<and> stats exampleSession = \<lparr> packetsReceived = 0, bytesReceived = 0, lastPacketTime = 0 \<rparr>
   \<and> stats exampleSessionLater = \<lparr> packetsReceived = 2, bytesReceived = 5, lastPacketTime = 12000 \<rparr>
   \<and> packetsReceived (stats exampleSession) \<le> packetsReceived (stats exampleSessionLater)
   \<and> bytesReceived (stats exampleSession) \<le> bytesReceived (stats exampleSessionLater)"
proof -
  have cfg: "config exampleState = DEFAULT_HLS_CONFIG"
    by (simp add: exampleState_def)
  have ne: "''s1'' \<noteq> ''s2''"
    by simp
  note lookups = onSession_sessions onSession_frame start_frame(1) [OF ne] start_frame(2)
    stop_sessions stop_config example_lookup cfg
  have tracked: "trackedAlong ''s1'' exampleEvents exampleState"
    by (simp add: exampleEvents_def lookups)
  have later: "map_of (sessions (run exampleEvents exampleState)) ''s1'' = Some exampleSessionLater"
    by (simp add: run_def exampleEvents_def lookups exampleSessionLater_def)
  have counted: "stats exampleSession = \<lparr> packetsReceived = 0, bytesReceived = 0, lastPacketTime = 0 \<rparr>"
    "stats exampleSessionLater = \<lparr> packetsReceived = 2, bytesReceived = 5, lastPacketTime = 12000 \<rparr>"
    by (simp_all add: exampleSessionLater_def onStderrProgress_def deliver_def onRtpMessage_def
        forwardToStdin_def processExit_eq sel_def exampleSession_def exampleProcess_def)
  show ?thesis
    using stats_counters_monotone [OF tracked example_lookup later] tracked later counted
    by (simp add: example_lookup)
qed

subsection \<open>The adaptive master playlist\<close>

text \<open>
  Claim C9 says that \<^verbatim>\<open>startAdaptiveTranscoding\<close> creates three sessions, returns three
  manifest paths and writes a master manifest whose three entries point at the manifests
  of the tiers. For the id live with the default configuration the three sessions
  live_720p, live_480p and live_360p are created at the bases 20000, 20100 and 20200, and
  the master manifest has the three entries with the bandwidths 2500000, 1200000 and
  800000 and the resolutions of the tiers; but its URI lines, resolved against the
  directory of the master manifest, name
  \<^verbatim>\<open>hls-output/live/720p/playlist.m3u8\<close> and so on, while the manifests of the tiers
  are \<^verbatim>\<open>hls-output/live_720p/playlist.m3u8\<close> and so on.
\<close>

theorem adaptive_master_points_elsewhere:
  "fst (startAdaptiveTranscoding exampleEnv exampleEnvs ''live'' [videoSource, audioSource]
          (createHLSTranscoder DEFAULT_HLS_CONFIG))
     = Inr [''hls-output/live_720p/playlist.m3u8'', ''hls-output/live_480p/playlist.m3u8'',
            ''hls-output/live_360p/playlist.m3u8'']
   \<and> snd (snd (startAdaptiveTranscoding exampleEnv exampleEnvs ''live'' [videoSource, audioSource]
                  (createHLSTranscoder DEFAULT_HLS_CONFIG)))
     = Some (''hls-output/live/master.m3u8'', exampleMaster)
   \<and> map (resolveUri ''hls-output/live/master.m3u8'') (uriLines exampleMaster)
     = [''hls-output/live/720p/playlist.m3u8'', ''hls-output/live/480p/playlist.m3u8'',
        ''hls-output/live/360p/playlist.m3u8'']
   \<and> map sessionIds (fst (snd (startAdaptiveTranscoding exampleEnv exampleEnvs ''live''
                                  [videoSource, audioSource] (createHLSTranscoder DEFAULT_HLS_CONFIG))))
     = [[''live_720p''], [''live_480p''], [''live_360p'']]
   \<and> map usedPorts (fst (snd (startAdaptiveTranscoding exampleEnv exampleEnvs ''live''
                                 [videoSource, audioSource] (createHLSTranscoder DEFAULT_HLS_CONFIG))))
     = [[20000, 20001, 20002, 20003], [20100, 20101, 20102, 20103],
        [20200, 20201, 20202, 20203]]"
proof -
  have cfg: "config (createHLSTranscoder DEFAULT_HLS_CONFIG) = DEFAULT_HLS_CONFIG"
    by (simp add: createHLSTranscoder_def)
  have master: "createMasterPlaylist (createHLSTranscoder DEFAULT_HLS_CONFIG) ''live'' qualities urls
      = (''hls-output/live/master.m3u8'', exampleMaster)" for urls
    using master_content [of "createHLSTranscoder DEFAULT_HLS_CONFIG" "''live''" urls]
    by (cases "createMasterPlaylist (createHLSTranscoder DEFAULT_HLS_CONFIG) ''live'' qualities urls")
       (simp add: createMasterPlaylist_def cfg default_simps tier_paths)
  show ?thesis
    by (simp add: startAdaptiveTranscoding_def cfg adaptive_example exampleEnv_simps master
        master_uris resolved_paths start_fresh_both(2,3))
qed

subsection \<open>Starting without a producer\<close>

text \<open>
  Claim C10 says that every call of \<^verbatim>\<open>startTranscoding\<close> whose producer list has neither
  a video nor an audio producer throws and leaves the state unchanged. On an id that is
  already tracked the duplicate check throws first, inside the \<^verbatim>\<open>try\<close> block, and the
  \<^verbatim>\<open>catch\<close> block calls \<^verbatim>\<open>stopTranscoding(sessionId)\<close>: with session s1 running on the
  ports 20000 to 20003, \<^verbatim>\<open>startTranscoding\<close> of s1 with the empty producer list returns
  the duplicate-session error and leaves no session and no reserved port.
\<close>

theorem start_without_producers_tears_down:
  "find (\<lambda>p. kind p = Video) ([] :: Producer list) = None
   \<and> find (\<lambda>p. kind p = Audio) ([] :: Producer list) = None
   \<and> map_of (sessions exampleState) ''s1'' = Some exampleSession
   \<and> usedPorts exampleState = [20000, 20001, 20002, 20003]
   \<and> startTranscoding exampleEnv ''s1'' [] exampleState
       = (Inl (SessionExists ''s1''), exampleState\<lparr>sessions := [], usedPorts := []\<rparr>)
   \<and> snd (startTranscoding exampleEnv ''s1'' [] exampleState) \<noteq> exampleState"
proof -
  have "startTranscoding exampleEnv ''s1'' [] exampleState
       = (Inl (SessionExists ''s1''), fst (stopTranscoding exampleEnv ''s1'' exampleState))"
    by (rule start_duplicate) (simp add: example_lookup)
  moreover have "fst (stopTranscoding exampleEnv ''s1'' exampleState)
      = exampleState\<lparr>sessions := [], usedPorts := []\<rparr>"
    by (simp add: stopTranscoding_def example_lookup)
       (simp add: exampleState_def exampleSession_def set_delete_def)
  moreover have "exampleState\<lparr>sessions := [], usedPorts := []\<rparr> \<noteq> exampleState"
    by (simp add: exampleState_def)
  ultimately show ?thesis
    by (simp add: example_lookup) (simp add: exampleState_def)
qed

end
